theory Spec2Isabelle
  imports Complex_Main
begin

section \<open>JavaScript numbers\<close>

text \<open>
  A JavaScript number is an IEEE 754 double.  Where the rounding of the arithmetic decides
  what the code does (\<open>IpPoolService\<close>, \<open>createAbTest\<close>, the scoring of variants), a finite
  double is modelled by its exact value, a rational, and an operation of the code by the
  exact operation followed by \<open>fl\<close>, the rounding to the nearest double, a tie going to the
  even significand.  \<open>NaN\<close> and the infinities are not values of the model: it follows the
  code as long as the operands are finite and no result reaches \<open>2 ^ 1024\<close>.

  \<open>binade n e x\<close> searches downwards from \<open>e\<close>, in at most \<open>n\<close> steps, for the first
  exponent \<open>k\<close> with \<open>2 ^ k \<le> x\<close>.  From 1023 with 2046 steps it gives the exponent of the
  binade of \<open>x\<close>, and \<open>-1023\<close> below the normal range, so that \<open>ulp_exponent\<close> is the
  exponent of the spacing of the doubles around \<open>x\<close>: 52 below the binade, and \<open>-1074\<close> for
  the subnormals.
\<close>

definition round_half_even :: "rat \<Rightarrow> int" where
  "round_half_even y =
     (let n = \<lfloor>y\<rfloor>; r = y - of_int n
      in if r < 1 / 2 then n
         else if 1 / 2 < r then n + 1
         else if even n then n else n + 1)"

fun binade :: "nat \<Rightarrow> int \<Rightarrow> rat \<Rightarrow> int" where
  "binade 0 e x = e"
| "binade (Suc n) e x = (if 2 powi e \<le> x then e else binade n (e - 1) x)"

definition ulp_exponent :: "rat \<Rightarrow> int" where
  "ulp_exponent x = max (binade 2046 1023 \<bar>x\<bar> - 52) (- 1074)"

definition fl :: "rat \<Rightarrow> rat" where
  "fl x = of_int (round_half_even (x / 2 powi ulp_exponent x)) * 2 powi ulp_exponent x"

text \<open>
  The operators \<open>+\<close>, \<open>-\<close>, \<open>*\<close> and \<open>/\<close> on doubles.  A decimal literal such as
  \<open>0.01\<close> denotes the double nearest to it: \<open>fl (1 / 100)\<close>.  A division by zero is
  not modelled; the code below divides by a count that it has found positive, and by 100.
\<close>

definition js_add :: "rat \<Rightarrow> rat \<Rightarrow> rat" where
  "js_add a b = fl (a + b)"

definition js_sub :: "rat \<Rightarrow> rat \<Rightarrow> rat" where
  "js_sub a b = fl (a - b)"

definition js_mul :: "rat \<Rightarrow> rat \<Rightarrow> rat" where
  "js_mul a b = fl (a * b)"

definition js_div :: "rat \<Rightarrow> rat \<Rightarrow> rat" where
  "js_div a b = fl (a / b)"

text \<open>
  \<open>Math.round\<close>: the integer nearest to the value of the double, a half going up.  It is
  exact: no rounding of the result takes place.
\<close>

definition Math_round :: "rat \<Rightarrow> int" where
  "Math_round x = \<lfloor>x + 1 / 2\<rfloor>"

section \<open>Errors\<close>

text \<open>
  The exceptions the services throw.  \<open>NotFoundException\<close> and \<open>BadRequestException\<close> are the
  NestJS exceptions with their message; \<open>TypeError\<close> is the JavaScript error of reading a
  property of \<open>undefined\<close>.
\<close>

datatype error =
    NotFoundException string
  | BadRequestException string
  | TypeError

section \<open>RateLimitingService\<close>

text \<open>
  A row of the table \<open>api_usage\<close>, with the columns \<open>checkRateLimit\<close> reads or writes.  The
  entity \<open>ApiUsage\<close> declares \<open>id\<close>, \<open>userId\<close>, \<open>endpoint\<close>, \<open>metadata\<close> and
  \<open>timestamp\<close>, and so does the table; neither has a column \<open>count\<close>.  The table is a
  list of rows; a row's position stands for its \<open>id\<close>, so that saving a row that was loaded
  overwrites it in place and saving a new one appends it.  \<open>metadata\<close> is never written.
  Times are milliseconds, the value of \<open>Date.getTime()\<close>.
\<close>

record ApiUsage =
  userId :: string
  endpoint :: string
  timestamp :: int

text \<open>
  \<open>apiUsageRepository.findOne({ where: { userId, endpoint, timestamp } })\<close>: the position of
  the first row whose three columns equal the three values.
\<close>

fun findOneUsage :: "ApiUsage list \<Rightarrow> string \<Rightarrow> string \<Rightarrow> int \<Rightarrow> nat option" where
  "findOneUsage [] u e t = None"
| "findOneUsage (r # rs) u e t =
     (if userId r = u \<and> endpoint r = e \<and> timestamp r = t then Some 0
      else map_option Suc (findOneUsage rs u e t))"




section \<open>Mailbox entity and MailboxesService\<close>

text \<open>
  \<open>MailboxStatus\<close> as the enum declares it.  The constructors \<open>ACTIVE\<close> and \<open>FAILED\<close> are
  also constructors of \<open>CampaignStatus\<close> below, so both enums are written with their
  qualified names, \<open>MailboxStatus.ACTIVE\<close> and \<open>CampaignStatus.ACTIVE\<close>, as the source does.
  The same holds for record fields that several entities share (\<open>status\<close>,
  \<open>sendingConfig\<close>, \<open>isActive\<close>, \<open>name\<close>, \<open>config\<close>).
\<close>

datatype MailboxStatus = PENDING | ACTIVE | SUSPENDED | FAILED | WARMING_UP

text \<open>
  The column \<open>sendingConfig\<close> of a mailbox.  Rates are JavaScript numbers holding whole
  numbers; \<open>lastWarmupUpdate\<close> is a time in milliseconds.
\<close>

record MailboxSendingConfig =
  maxEmailsPerDay :: int
  maxEmailsPerHour :: int
  maxEmailsPerMinute :: int
  warmupEnabled :: bool
  warmupRate :: int
  warmupIncrement :: int
  currentWarmupRate :: int
  lastWarmupUpdate :: int
  timezone :: string
  businessHoursOnly :: bool
  businessHoursStart :: string
  businessHoursEnd :: string
  businessDays :: "int list"

text \<open>
  The columns of \<open>Mailbox\<close> that the getters and \<open>warmupMailbox\<close> read or write.  The
  primary key \<open>id\<close> is the key of the repository below.
\<close>

record Mailbox =
  status :: MailboxStatus
  sendingConfig :: "MailboxSendingConfig option"
  isActive :: bool

text \<open>What \<open>new Date()\<close> answers to \<open>getHours()\<close>, \<open>getMinutes()\<close> and \<open>getDay()\<close>: the
  wall clock of the process in its own local time zone.\<close>

record LocalDate =
  getHours :: int
  getMinutes :: int
  getDay :: int

definition isReady :: "Mailbox \<Rightarrow> bool" where
  "isReady m = (Mailbox.isActive m \<and> Mailbox.status m = MailboxStatus.ACTIVE)"

definition isWarmingUp :: "Mailbox \<Rightarrow> bool" where
  "isWarmingUp m = (Mailbox.status m = MailboxStatus.WARMING_UP)"

text \<open>\<open>s.split(':')\<close>: the pieces of \<open>s\<close> between colons; always at least one piece.\<close>

fun split_colon :: "string \<Rightarrow> string list" where
  "split_colon [] = [[]]"
| "split_colon (c # cs) =
     (if c = CHR '':'' then [] # split_colon cs
      else (case split_colon cs of
              [] \<Rightarrow> [[c]]
            | w # ws \<Rightarrow> (c # w) # ws))"

text \<open>
  \<open>Number(s)\<close> for a string of at most 12 decimal digits: its value, and 0 for the empty
  string.  On these numbers the arithmetic of the getter below is exact in doubles.
  \<open>None\<close> is a string this model does not read.  JavaScript reads more strings as numbers
  (longer ones, a sign, a fraction, an exponent, a radix prefix, surrounding white space,
  \<open>Infinity\<close>) and reads the rest as \<open>NaN\<close>; for none of them does the model say what the
  code does.
\<close>

definition digit_of :: "char \<Rightarrow> int option" where
  "digit_of c = map_of (zip ''0123456789'' [0, 1, 2, 3, 4, 5, 6, 7, 8, 9]) c"

fun digits_value :: "int \<Rightarrow> string \<Rightarrow> int option" where
  "digits_value acc [] = Some acc"
| "digits_value acc (c # cs) =
     (case digit_of c of
        None \<Rightarrow> None
      | Some d \<Rightarrow> digits_value (acc * 10 + d) cs)"

definition Number :: "string \<Rightarrow> int option" where
  "Number s = (if length s \<le> 12 then digits_value 0 s else None)"

text \<open>
  \<open>t[0] * 60 + t[1]\<close> for \<open>t = s.split(':').map(Number)\<close>, when \<open>s\<close> has a colon and
  the model reads the pieces before and after the first one; \<open>None\<close> otherwise.
\<close>

definition minutesOfDay :: "string \<Rightarrow> int option" where
  "minutesOfDay s =
     (case map Number (split_colon s) of
        Some h # Some m # _ \<Rightarrow> Some (h * 60 + m)
      | _ \<Rightarrow> None)"

text \<open>
  The getter \<open>isInBusinessHours\<close>, with the clock reading as an argument.  The answer is
  \<open>None\<close> when the getter comes to read a start or an end that the model does not.
\<close>

definition isInBusinessHours :: "Mailbox \<Rightarrow> LocalDate \<Rightarrow> bool option" where
  "isInBusinessHours m now =
     (case Mailbox.sendingConfig m of
        None \<Rightarrow> Some True
      | Some sc \<Rightarrow>
          if \<not> businessHoursOnly sc then Some True
          else
            (let currentHour = getHours now;
                 currentMinute = getMinutes now;
                 currentDay = getDay now
             in if currentDay \<notin> set (businessDays sc) then Some False
                else
                  (let currentTime = currentHour * 60 + currentMinute
                   in case (minutesOfDay (businessHoursStart sc),
                            minutesOfDay (businessHoursEnd sc)) of
                        (Some startMinutes, Some endMinutes) \<Rightarrow>
                          Some (currentTime \<ge> startMinutes \<and> currentTime \<le> endMinutes)
                      | _ \<Rightarrow> None)))"

text \<open>The mailbox table: a map from the primary key to the row.\<close>

type_synonym MailboxRepository = "string \<rightharpoonup> Mailbox"

definition MailboxesService_findById :: "MailboxRepository \<Rightarrow> string \<Rightarrow> error + Mailbox" where
  "MailboxesService_findById repo mid =
     (case repo mid of
        None \<Rightarrow> Inl (NotFoundException ''Mailbox not found'')
      | Some mailbox \<Rightarrow> Inr mailbox)"

text \<open>
  \<open>warmupMailbox(id)\<close>, with the clock reading \<open>now\<close> as an argument.  The result is what
  the call returns or throws, and the table after the call.
\<close>

definition warmupMailbox ::
  "MailboxRepository \<Rightarrow> int \<Rightarrow> string \<Rightarrow> (error + Mailbox) \<times> MailboxRepository" where
  "warmupMailbox repo now mid =
     (case MailboxesService_findById repo mid of
        Inl e \<Rightarrow> (Inl e, repo)
      | Inr mailbox \<Rightarrow>
          if Mailbox.status mailbox \<noteq> MailboxStatus.ACTIVE
          then (Inl (BadRequestException ''Only active mailboxes can be warmed up''), repo)
          else
            (case Mailbox.sendingConfig mailbox of
               None \<Rightarrow>
                 (Inl (BadRequestException ''Warmup is not enabled for this mailbox''), repo)
             | Some sc \<Rightarrow>
                 if \<not> warmupEnabled sc
                 then (Inl (BadRequestException ''Warmup is not enabled for this mailbox''), repo)
                 else
                   (let newRate = min (currentWarmupRate sc + warmupIncrement sc)
                                      (maxEmailsPerDay sc);
                        repo' = repo(mid \<mapsto> mailbox
                          \<lparr>Mailbox.status := MailboxStatus.WARMING_UP,
                           Mailbox.sendingConfig :=
                             Some (sc\<lparr>currentWarmupRate := newRate,
                                      lastWarmupUpdate := now\<rparr>)\<rparr>)
                    in (MailboxesService_findById repo' mid, repo'))))"

section \<open>IpPoolService\<close>

datatype IpPoolStatus = active | warming | suspended | blacklisted

text \<open>
  An entry of the in-memory pool, with the fields \<open>updateIpUsage\<close> reads or writes.  The
  three numbers are doubles, and \<open>lastUsed\<close> is a time in milliseconds.
\<close>

record IpPool =
  ipAddress :: string
  status :: IpPoolStatus
  dailyLimit :: rat
  currentUsage :: rat
  warmupRate :: rat
  lastUsed :: int

text \<open>The body of \<open>updateIpUsage\<close> on the pool it found.\<close>

definition updateIpUsage_found :: "IpPool \<Rightarrow> int \<Rightarrow> rat \<Rightarrow> IpPool" where
  "updateIpUsage_found ipPool now usage =
     (let p1 = ipPool\<lparr>currentUsage := js_add (currentUsage ipPool) usage, lastUsed := now\<rparr>
      in if IpPool.status p1 = warming \<and> currentUsage p1 \<ge> IpPool.warmupRate p1
         then
           (let p2 = p1\<lparr>IpPool.warmupRate :=
                         min (js_mul (IpPool.warmupRate p1) (fl (12 / 10))) (dailyLimit p1)\<rparr>
            in if IpPool.warmupRate p2 \<ge> js_mul (dailyLimit p2) (fl (8 / 10))
               then p2\<lparr>IpPool.status := active\<rparr>
               else p2)
         else p1)"

text \<open>
  \<open>updateIpUsage(ipAddress, usage)\<close> on the values of the \<open>ipPools\<close> map in insertion
  order, with the clock reading as an argument: the first pool with that address is
  updated in place, and nothing happens when there is none.
\<close>

fun updateIpUsage :: "IpPool list \<Rightarrow> int \<Rightarrow> string \<Rightarrow> rat \<Rightarrow> IpPool list" where
  "updateIpUsage [] now ip usage = []"
| "updateIpUsage (p # ps) now ip usage =
     (if ipAddress p = ip then updateIpUsage_found p now usage # ps
      else p # updateIpUsage ps now ip usage)"

section \<open>Campaign entity\<close>

datatype CampaignStatus = DRAFT | SCHEDULED | ACTIVE | PAUSED | COMPLETED | CANCELLED | FAILED

text \<open>
  Opaque JSON, for columns whose content no modelled operation looks into.
\<close>

type_synonym json = string

text \<open>
  The \<open>config\<close> object of a variant (\<open>AbTestVariant.config\<close>).  Every property is
  optional: \<open>None\<close> is a property that is absent.
\<close>

record AbTestVariantConfig =
  subject :: "string option"
  htmlContent :: "string option"
  textContent :: "string option"
  fromName :: "string option"
  fromEmail :: "string option"
  sendTime :: "string option"

record Performance =
  sent :: int
  opened :: int
  clicked :: int
  replied :: int
  unsubscribed :: int
  bounced :: int

text \<open>
  A variant of \<open>abTesting.variants\<close>.  \<open>variantId\<close> is its property \<open>id\<close>.  A weight
  is a double, held by its exact value.
\<close>

record AbTestVariant =
  variantId :: string
  name :: string
  weight :: rat
  config :: AbTestVariantConfig
  performance :: "Performance option"

record AbTesting =
  enabled :: bool
  testType :: string
  variants :: "AbTestVariant list"
  testSize :: int
  testDuration :: int
  winnerCriteria :: string
  winnerSelected :: "string option"

text \<open>
  The \<open>config\<close> column of a campaign, with the properties that hold text.  A property is
  \<open>None\<close> when the object lacks it, which happens when \<open>selectWinner\<close> spreads an absent
  \<open>config\<close>.  \<open>subjectVariants\<close>, \<open>attachments\<close>, \<open>customHeaders\<close> and the three boolean
  switches are neither read nor written by the operations modelled and are left out.
\<close>

record CampaignConfig =
  subject :: "string option"
  fromName :: "string option"
  fromEmail :: "string option"
  replyTo :: "string option"
  templateId :: "string option"
  htmlContent :: "string option"
  textContent :: "string option"

record TargetingFilter =
  field :: string
  operator :: string
  filterValue :: json

record Targeting =
  contactListIds :: "string list"
  filters :: "TargetingFilter list option"
  maxContacts :: "int option"

text \<open>
  The \<open>progress\<close> column.  A counter is \<open>None\<close> when the object lacks it, which happens
  when \<open>startCampaign\<close> spreads an absent \<open>progress\<close>.
\<close>

record Progress =
  totalContacts :: "int option"
  processedContacts :: "int option"
  sentEmails :: "int option"
  failedEmails :: "int option"
  bouncedEmails :: "int option"
  unsubscribedEmails :: "int option"
  repliedEmails :: "int option"
  openedEmails :: "int option"
  clickedEmails :: "int option"

text \<open>
  The object \<open>updateCampaign\<close> receives as \<open>updateCampaignDto\<close>.  The interface
  \<open>UpdateCampaignDto\<close> declares \<open>name\<close>, \<open>description\<close>, \<open>config\<close>, \<open>sequence\<close>,
  \<open>targeting\<close>, \<open>sendingConfig\<close> and \<open>scheduledAt\<close>, but the controller passes the body
  of the request as it came, so the object may carry any property of a campaign, the
  status and the primary key included.  A property is \<open>None\<close> when the object lacks it and
  \<open>Some v\<close> when it carries the value \<open>v\<close>; for a column that may be null, \<open>v\<close> is \<open>None\<close>
  for a \<open>null\<close>.  \<open>campaignId\<close> is the property \<open>id\<close>.
\<close>

record UpdateCampaignDto =
  campaignId :: "string option"
  organizationId :: "string option"
  name :: "string option"
  description :: "string option option"
  status :: "CampaignStatus option"
  config :: "CampaignConfig option option"
  sequence :: "json option option"
  targeting :: "Targeting option option"
  scheduledAt :: "int option option"
  startedAt :: "int option option"
  completedAt :: "int option option"
  sendingConfig :: "json option option"
  abTesting :: "AbTesting option option"
  progress :: "Progress option option"

text \<open>
  The columns of \<open>Campaign\<close> that the services below read or write.  The primary key
  \<open>id\<close> is the key of the repository.  Times are milliseconds.
\<close>

record Campaign =
  organizationId :: string
  name :: string
  description :: "string option"
  status :: CampaignStatus
  config :: "CampaignConfig option"
  sequence :: "json option"
  targeting :: "Targeting option"
  scheduledAt :: "int option"
  startedAt :: "int option"
  completedAt :: "int option"
  sendingConfig :: "json option"
  abTesting :: "AbTesting option"
  progress :: "Progress option"

definition canStart :: "Campaign \<Rightarrow> bool" where
  "canStart c =
     (Campaign.status c = CampaignStatus.DRAFT \<or> Campaign.status c = CampaignStatus.SCHEDULED)"




section \<open>CampaignsService\<close>

text \<open>The campaign table and the contact-list table: maps from the primary key to the row.\<close>

type_synonym CampaignRepository = "string \<rightharpoonup> Campaign"

text \<open>
  A contact list, with the \<open>stats\<close> column that its getter \<open>totalContacts\<close> reads:
  \<open>this.stats?.totalContacts || 0\<close>.
\<close>

record ContactListStats =
  totalContacts :: int
  activeContacts :: int

record ContactList =
  stats :: "ContactListStats option"

type_synonym ContactListRepository = "string \<rightharpoonup> ContactList"

definition ContactList_totalContacts :: "ContactList \<Rightarrow> int" where
  "ContactList_totalContacts l =
     (case stats l of
        None \<Rightarrow> 0
      | Some s \<Rightarrow> ContactListStats.totalContacts s)"

text \<open>\<open>findById(id, organizationId)\<close>: the row with that key, if it belongs to the
  organization.\<close>

definition CampaignsService_findById ::
  "CampaignRepository \<Rightarrow> string \<Rightarrow> string \<Rightarrow> error + Campaign" where
  "CampaignsService_findById repo cid org =
     (case repo cid of
        None \<Rightarrow> Inl (NotFoundException ''Campaign not found'')
      | Some campaign \<Rightarrow>
          if Campaign.organizationId campaign = org then Inr campaign
          else Inl (NotFoundException ''Campaign not found''))"

text \<open>
  \<open>target.p = source.p\<close> for a property \<open>p\<close> the source has; the target keeps its own
  value otherwise.
\<close>

definition assigned :: "'a option \<Rightarrow> 'a \<Rightarrow> 'a" where
  "assigned property old = (case property of None \<Rightarrow> old | Some v \<Rightarrow> v)"

text \<open>
  \<open>Object.assign(campaign, updateCampaignDto)\<close> copies every property the object
  carries.  The primary key is not a field of the record: \<open>updateCampaign\<close> below saves
  the row under the key the object carries, if it carries one.
\<close>

definition Object_assign :: "Campaign \<Rightarrow> UpdateCampaignDto \<Rightarrow> Campaign" where
  "Object_assign campaign dto =
     campaign
       \<lparr>Campaign.organizationId :=
          assigned (UpdateCampaignDto.organizationId dto) (Campaign.organizationId campaign),
        Campaign.name := assigned (UpdateCampaignDto.name dto) (Campaign.name campaign),
        Campaign.description :=
          assigned (UpdateCampaignDto.description dto) (Campaign.description campaign),
        Campaign.status := assigned (UpdateCampaignDto.status dto) (Campaign.status campaign),
        Campaign.config := assigned (UpdateCampaignDto.config dto) (Campaign.config campaign),
        Campaign.sequence :=
          assigned (UpdateCampaignDto.sequence dto) (Campaign.sequence campaign),
        Campaign.targeting :=
          assigned (UpdateCampaignDto.targeting dto) (Campaign.targeting campaign),
        Campaign.scheduledAt :=
          assigned (UpdateCampaignDto.scheduledAt dto) (Campaign.scheduledAt campaign),
        Campaign.startedAt :=
          assigned (UpdateCampaignDto.startedAt dto) (Campaign.startedAt campaign),
        Campaign.completedAt :=
          assigned (UpdateCampaignDto.completedAt dto) (Campaign.completedAt campaign),
        Campaign.sendingConfig :=
          assigned (UpdateCampaignDto.sendingConfig dto) (Campaign.sendingConfig campaign),
        Campaign.abTesting :=
          assigned (UpdateCampaignDto.abTesting dto) (Campaign.abTesting campaign),
        Campaign.progress :=
          assigned (UpdateCampaignDto.progress dto) (Campaign.progress campaign)\<rparr>"

text \<open>
  \<open>if (updateCampaignDto.scheduledAt)\<close>: the property is truthy when the object carries
  a date; it is falsy when the object lacks the property or carries \<open>null\<close>.
\<close>

definition carriesDate :: "int option option \<Rightarrow> bool" where
  "carriesDate property = (case property of Some (Some t) \<Rightarrow> True | _ \<Rightarrow> False)"

text \<open>
  Each operation returns what the call returns or throws, and the table after the call.
  \<open>campaignRepository.save(campaign)\<close> writes the row under the campaign's primary key.
\<close>

definition updateCampaign ::
  "CampaignRepository \<Rightarrow> string \<Rightarrow> UpdateCampaignDto \<Rightarrow> string
     \<Rightarrow> (error + Campaign) \<times> CampaignRepository" where
  "updateCampaign repo cid updateCampaignDto org =
     (case CampaignsService_findById repo cid org of
        Inl e \<Rightarrow> (Inl e, repo)
      | Inr campaign \<Rightarrow>
          if Campaign.status campaign = CampaignStatus.ACTIVE
          then (Inl (BadRequestException ''Cannot update active campaign''), repo)
          else if Campaign.status campaign = CampaignStatus.COMPLETED
          then (Inl (BadRequestException ''Cannot update completed campaign''), repo)
          else
            (let c1 = Object_assign campaign updateCampaignDto;
                 key = assigned (UpdateCampaignDto.campaignId updateCampaignDto) cid;
                 c2 = (if carriesDate (UpdateCampaignDto.scheduledAt updateCampaignDto)
                       then c1\<lparr>Campaign.status := CampaignStatus.SCHEDULED\<rparr>
                       else c1)
             in (Inr c2, repo(key \<mapsto> c2))))"

text \<open>The loop of \<open>calculateTotalContacts\<close> over \<open>contactListIds\<close>.\<close>

fun sumContactLists :: "ContactListRepository \<Rightarrow> string list \<Rightarrow> int \<Rightarrow> int" where
  "sumContactLists contactLists [] acc = acc"
| "sumContactLists contactLists (listId # listIds) acc =
     (case contactLists listId of
        None \<Rightarrow> sumContactLists contactLists listIds acc
      | Some contactList \<Rightarrow>
          sumContactLists contactLists listIds (acc + ContactList_totalContacts contactList))"

text \<open>
  \<open>calculateTotalContacts\<close>.  \<open>Math.floor(totalContacts * 0.8)\<close> is the floor of the
  product by \<open>4/5\<close>; \<open>maxContacts && ...\<close> holds for a number that is present and not 0.
\<close>

definition calculateTotalContacts :: "ContactListRepository \<Rightarrow> Campaign \<Rightarrow> int" where
  "calculateTotalContacts contactLists campaign =
     (case Campaign.targeting campaign of
        None \<Rightarrow> 0
      | Some t \<Rightarrow>
          (let total1 = sumContactLists contactLists (contactListIds t) 0;
               total2 = (case filters t of
                           None \<Rightarrow> total1
                         | Some fs \<Rightarrow>
                             if length fs > 0
                             then \<lfloor>(of_int total1 :: rat) * (8 / 10)\<rfloor>
                             else total1);
               total3 = (case maxContacts t of
                           None \<Rightarrow> total2
                         | Some mc \<Rightarrow>
                             if mc \<noteq> 0 \<and> total2 > mc then mc else total2)
           in total3))"

text \<open>The object \<open>{}\<close> that spreading an absent \<open>progress\<close> gives.\<close>

definition emptyProgress :: Progress where
  "emptyProgress =
     \<lparr>Progress.totalContacts = None, processedContacts = None, sentEmails = None,
      failedEmails = None, bouncedEmails = None, unsubscribedEmails = None,
      repliedEmails = None, openedEmails = None, clickedEmails = None\<rparr>"

definition startCampaign ::
  "CampaignRepository \<Rightarrow> ContactListRepository \<Rightarrow> int \<Rightarrow> string \<Rightarrow> string
     \<Rightarrow> (error + Campaign) \<times> CampaignRepository" where
  "startCampaign repo contactLists now cid org =
     (case CampaignsService_findById repo cid org of
        Inl e \<Rightarrow> (Inl e, repo)
      | Inr campaign \<Rightarrow>
          if \<not> canStart campaign
          then (Inl (BadRequestException ''Campaign cannot be started''), repo)
          else
            (let totalCount = calculateTotalContacts contactLists campaign
             in if totalCount = 0
                then (Inl (BadRequestException ''No contacts found for campaign''), repo)
                else
                  (let c' = campaign
                       \<lparr>Campaign.status := CampaignStatus.ACTIVE,
                        Campaign.startedAt := Some now,
                        Campaign.progress := Some
                          ((case Campaign.progress campaign of
                              None \<Rightarrow> emptyProgress
                            | Some p \<Rightarrow> p)
                           \<lparr>Progress.totalContacts := Some totalCount,
                            processedContacts := Some 0\<rparr>)\<rparr>
                   in (Inr c', repo(cid \<mapsto> c')))))"




section \<open>AbTestingService\<close>

text \<open>
  The argument \<open>testConfig\<close> of \<open>createAbTest\<close> and its variants.  Their property names are
  those of \<open>AbTesting\<close> and \<open>AbTestVariant\<close>, so they are written qualified too.  A weight
  is a finite double.
\<close>

record VariantInput =
  name :: string
  weight :: rat
  config :: AbTestVariantConfig

record TestConfig =
  testType :: string
  variants :: "VariantInput list"
  testSize :: int
  testDuration :: int
  winnerCriteria :: string

text \<open>The decimal numeral of a natural number, as a template literal prints it.\<close>

fun string_of_nat :: "nat \<Rightarrow> string" where
  "string_of_nat n =
     (if n < 10 then [''0123456789'' ! n]
      else string_of_nat (n div 10) @ [''0123456789'' ! (n mod 10)])"

declare string_of_nat.simps [simp del]

text \<open>
  \<open>testConfig.variants.reduce((sum, v) => sum + v.weight, 0)\<close>: the weights are added
  from the left, starting at 0, each sum rounded to a double.
\<close>

definition totalWeight :: "VariantInput list \<Rightarrow> rat" where
  "totalWeight vs = foldl (\<lambda>sum v. js_add sum (VariantInput.weight v)) 0 vs"

text \<open>
  \<open>createAbTest(campaignId, testConfig)\<close>.  The difference \<open>totalWeight - 100\<close> is
  rounded to a double, and the tolerance is the double \<open>0.01\<close>.
\<close>

definition createAbTest ::
  "CampaignRepository \<Rightarrow> string \<Rightarrow> TestConfig \<Rightarrow> (error + Campaign) \<times> CampaignRepository" where
  "createAbTest repo cid testConfig =
     (case repo cid of
        None \<Rightarrow> (Inl (NotFoundException ''Campaign not found''), repo)
      | Some campaign \<Rightarrow>
          if Campaign.status campaign \<noteq> CampaignStatus.DRAFT
          then (Inl (BadRequestException
                       ''A/B test can only be created for draft campaigns''), repo)
          else if length (TestConfig.variants testConfig) < 2
          then (Inl (BadRequestException ''A/B test requires at least 2 variants''), repo)
          else if length (TestConfig.variants testConfig) > 5
          then (Inl (BadRequestException ''A/B test cannot have more than 5 variants''), repo)
          else
            (let weightTotal = totalWeight (TestConfig.variants testConfig)
             in if \<bar>js_sub weightTotal 100\<bar> > fl (1 / 100)
                then (Inl (BadRequestException ''Variant weights must sum to 100%''), repo)
                else
                  (let c' = campaign\<lparr>Campaign.abTesting := Some
                         \<lparr>enabled = True,
                          AbTesting.testType = TestConfig.testType testConfig,
                          AbTesting.variants =
                            map (\<lambda>(index, v).
                                   \<lparr>variantId = ''variant-'' @ string_of_nat (index + 1),
                                    AbTestVariant.name = VariantInput.name v,
                                    AbTestVariant.weight = VariantInput.weight v,
                                    AbTestVariant.config = VariantInput.config v,
                                    performance = None\<rparr>)
                                (enumerate 0 (TestConfig.variants testConfig)),
                          AbTesting.testSize = TestConfig.testSize testConfig,
                          AbTesting.testDuration = TestConfig.testDuration testConfig,
                          AbTesting.winnerCriteria = TestConfig.winnerCriteria testConfig,
                          winnerSelected = None\<rparr>\<rparr>
                   in (Inr c', repo(cid \<mapsto> c')))))"

text \<open>
  The check of the weights alone, for weights that may be \<open>NaN\<close>, written \<open>None\<close>: a sum
  with \<open>NaN\<close> is \<open>NaN\<close>, and so is its difference from 100, which no comparison finds
  greater than the tolerance.
\<close>

fun addNumber :: "rat option \<Rightarrow> rat option \<Rightarrow> rat option" where
  "addNumber (Some a) (Some b) = Some (js_add a b)"
| "addNumber _ _ = None"

definition weightsRefused :: "rat option list \<Rightarrow> bool" where
  "weightsRefused weights =
     (case foldl addNumber (Some 0) weights of
        None \<Rightarrow> False
      | Some weightTotal \<Rightarrow> \<bar>js_sub weightTotal 100\<bar> > fl (1 / 100))"



text \<open>The six events \<open>trackVariantPerformance\<close> accepts.\<close>

datatype TrackEvent =
  Event_sent | Event_opened | Event_clicked | Event_replied | Event_unsubscribed
  | Event_bounced

definition zeroPerformance :: Performance where
  "zeroPerformance =
     \<lparr>sent = 0, opened = 0, clicked = 0, replied = 0, unsubscribed = 0, bounced = 0\<rparr>"

text \<open>The chain of \<open>if\<close>s that adds 1 to the counter the event names.\<close>

fun countEvent :: "TrackEvent \<Rightarrow> Performance \<Rightarrow> Performance" where
  "countEvent Event_sent p = p\<lparr>sent := sent p + 1\<rparr>"
| "countEvent Event_opened p = p\<lparr>opened := opened p + 1\<rparr>"
| "countEvent Event_clicked p = p\<lparr>clicked := clicked p + 1\<rparr>"
| "countEvent Event_replied p = p\<lparr>replied := replied p + 1\<rparr>"
| "countEvent Event_unsubscribed p = p\<lparr>unsubscribed := unsubscribed p + 1\<rparr>"
| "countEvent Event_bounced p = p\<lparr>bounced := bounced p + 1\<rparr>"

text \<open>
  \<open>variants.find(v => v.id === variantId)\<close> gives the first variant with that id; a
  change to it is a change to that element of the array.
\<close>

definition findVariant :: "AbTestVariant list \<Rightarrow> string \<Rightarrow> AbTestVariant option" where
  "findVariant vs vid = find (\<lambda>v. variantId v = vid) vs"

fun updateFound ::
  "(AbTestVariant \<Rightarrow> AbTestVariant) \<Rightarrow> AbTestVariant list \<Rightarrow> string \<Rightarrow> AbTestVariant list" where
  "updateFound f [] vid = []"
| "updateFound f (v # vs) vid =
     (if variantId v = vid then f v # vs else v # updateFound f vs vid)"

text \<open>
  \<open>trackVariantPerformance(campaignId, variantId, emailId, event)\<close>: the table after the
  call.  The function has no \<open>throw\<close>; every path returns.
\<close>

definition trackVariantPerformance ::
  "CampaignRepository \<Rightarrow> string \<Rightarrow> string \<Rightarrow> string \<Rightarrow> TrackEvent \<Rightarrow> CampaignRepository" where
  "trackVariantPerformance repo cid vid emailId event =
     (case repo cid of
        None \<Rightarrow> repo
      | Some campaign \<Rightarrow>
          (case Campaign.abTesting campaign of
             None \<Rightarrow> repo
           | Some ab \<Rightarrow>
               if \<not> enabled ab then repo
               else
                 (case findVariant (AbTesting.variants ab) vid of
                    None \<Rightarrow> repo
                  | Some variant \<Rightarrow>
                      (let track = (\<lambda>v. v\<lparr>performance := Some
                             (countEvent event
                                (case performance v of
                                   None \<Rightarrow> zeroPerformance
                                 | Some p \<Rightarrow> p))\<rparr>);
                           c' = campaign\<lparr>Campaign.abTesting := Some
                                  (ab\<lparr>AbTesting.variants :=
                                        updateFound track (AbTesting.variants ab) vid\<rparr>)\<rparr>
                       in repo(cid \<mapsto> c')))))"

text \<open>A string is truthy when it is present and not empty.\<close>

definition truthy :: "string option \<Rightarrow> bool" where
  "truthy s = (case s of None \<Rightarrow> False | Some v \<Rightarrow> v \<noteq> [])"

text \<open>\<open>{ ...campaign.config }\<close>: the properties of \<open>config\<close>, none when it is absent.\<close>

definition spreadConfig :: "CampaignConfig option \<Rightarrow> CampaignConfig" where
  "spreadConfig c =
     (case c of
        Some cfg \<Rightarrow> cfg
      | None \<Rightarrow>
          \<lparr>CampaignConfig.subject = None, CampaignConfig.fromName = None,
           CampaignConfig.fromEmail = None, replyTo = None, templateId = None,
           CampaignConfig.htmlContent = None, CampaignConfig.textContent = None\<rparr>)"

text \<open>
  \<open>selectWinner(campaignId, variantId)\<close>.  The five \<open>if\<close>s copy the variant's truthy
  properties onto \<open>campaign.config\<close>, one after the other.
\<close>

definition selectWinner ::
  "CampaignRepository \<Rightarrow> string \<Rightarrow> string \<Rightarrow> (error + Campaign) \<times> CampaignRepository" where
  "selectWinner repo cid vid =
     (case repo cid of
        None \<Rightarrow> (Inl (BadRequestException ''A/B test not found or not enabled''), repo)
      | Some campaign \<Rightarrow>
          (case Campaign.abTesting campaign of
             None \<Rightarrow> (Inl (BadRequestException ''A/B test not found or not enabled''), repo)
           | Some ab \<Rightarrow>
               if \<not> enabled ab
               then (Inl (BadRequestException ''A/B test not found or not enabled''), repo)
               else
                 (case findVariant (AbTesting.variants ab) vid of
                    None \<Rightarrow> (Inl (NotFoundException ''Variant not found''), repo)
                  | Some variant \<Rightarrow>
                      (let vc = AbTestVariant.config variant;
                           c0 = campaign\<lparr>Campaign.abTesting :=
                                  Some (ab\<lparr>winnerSelected := Some vid\<rparr>)\<rparr>;
                           c1 = (if truthy (AbTestVariantConfig.subject vc)
                                 then c0\<lparr>Campaign.config := Some
                                   ((spreadConfig (Campaign.config c0))
                                      \<lparr>CampaignConfig.subject :=
                                         AbTestVariantConfig.subject vc\<rparr>)\<rparr>
                                 else c0);
                           c2 = (if truthy (AbTestVariantConfig.htmlContent vc)
                                 then c1\<lparr>Campaign.config := Some
                                   ((spreadConfig (Campaign.config c1))
                                      \<lparr>CampaignConfig.htmlContent :=
                                         AbTestVariantConfig.htmlContent vc\<rparr>)\<rparr>
                                 else c1);
                           c3 = (if truthy (AbTestVariantConfig.textContent vc)
                                 then c2\<lparr>Campaign.config := Some
                                   ((spreadConfig (Campaign.config c2))
                                      \<lparr>CampaignConfig.textContent :=
                                         AbTestVariantConfig.textContent vc\<rparr>)\<rparr>
                                 else c2);
                           c4 = (if truthy (AbTestVariantConfig.fromName vc)
                                 then c3\<lparr>Campaign.config := Some
                                   ((spreadConfig (Campaign.config c3))
                                      \<lparr>CampaignConfig.fromName :=
                                         AbTestVariantConfig.fromName vc\<rparr>)\<rparr>
                                 else c3);
                           c5 = (if truthy (AbTestVariantConfig.fromEmail vc)
                                 then c4\<lparr>Campaign.config := Some
                                   ((spreadConfig (Campaign.config c4))
                                      \<lparr>CampaignConfig.fromEmail :=
                                         AbTestVariantConfig.fromEmail vc\<rparr>)\<rparr>
                                 else c4)
                       in (Inr c5, repo(cid \<mapsto> c5))))))"

text \<open>
  What \<open>getAbTestStatus\<close> returns for an enabled experiment: the properties copied from
  \<open>abTesting\<close> (here as one field), the four totals, and the two flags.  \<open>None\<close> stands for
  the answer \<open>{ enabled: false }\<close>.
\<close>

record AbTestTotals =
  totalSent :: int
  totalOpened :: int
  totalClicked :: int
  totalReplied :: int

record AbTestStatus =
  abTest :: AbTesting
  totals :: AbTestTotals
  isComplete :: bool
  canSelectWinner :: bool

text \<open>\<open>variants.reduce((sum, v) => sum + (v.performance?.f || 0), 0)\<close> for a counter \<open>f\<close>.\<close>

definition sumCounter :: "(Performance \<Rightarrow> int) \<Rightarrow> AbTestVariant list \<Rightarrow> int" where
  "sumCounter f vs =
     foldl (\<lambda>sum v. sum + (case performance v of None \<Rightarrow> 0 | Some p \<Rightarrow> f p)) 0 vs"

definition getAbTestStatus :: "CampaignRepository \<Rightarrow> string \<Rightarrow> AbTestStatus option" where
  "getAbTestStatus repo cid =
     (case repo cid of
        None \<Rightarrow> None
      | Some campaign \<Rightarrow>
          (case Campaign.abTesting campaign of
             None \<Rightarrow> None
           | Some ab \<Rightarrow>
               if \<not> enabled ab then None
               else
                 (let tSent = sumCounter sent (AbTesting.variants ab);
                      tOpened = sumCounter opened (AbTesting.variants ab);
                      tClicked = sumCounter clicked (AbTesting.variants ab);
                      tReplied = sumCounter replied (AbTesting.variants ab);
                      complete = (tSent \<ge> AbTesting.testSize ab);
                      canSelect = (complete \<and> \<not> truthy (winnerSelected ab))
                  in Some \<lparr>abTest = ab,
                           totals = \<lparr>totalSent = tSent, totalOpened = tOpened,
                                     totalClicked = tClicked, totalReplied = tReplied\<rparr>,
                           isComplete = complete,
                           canSelectWinner = canSelect\<rparr>)))"

text \<open>
  The rates and the score are doubles.  The counters are whole numbers; each operation
  of the expressions below is rounded to a double, in the order in which JavaScript
  evaluates it, and each decimal literal is the double nearest to it.
\<close>

record VariantMetrics =
  openRate :: rat
  clickRate :: rat
  replyRate :: rat
  unsubscribeRate :: rat
  bounceRate :: rat
  overallScore :: rat

definition calculateVariantMetrics :: "Performance \<Rightarrow> VariantMetrics" where
  "calculateVariantMetrics p =
     (let openRate0 =
            (if sent p > 0
             then js_mul (js_div (of_int (opened p)) (of_int (sent p))) 100 else 0);
          clickRate0 =
            (if sent p > 0
             then js_mul (js_div (of_int (clicked p)) (of_int (sent p))) 100 else 0);
          replyRate0 =
            (if sent p > 0
             then js_mul (js_div (of_int (replied p)) (of_int (sent p))) 100 else 0);
          unsubscribeRate0 =
            (if sent p > 0
             then js_mul (js_div (of_int (unsubscribed p)) (of_int (sent p))) 100 else 0);
          bounceRate0 =
            (if sent p > 0
             then js_mul (js_div (of_int (bounced p)) (of_int (sent p))) 100 else 0)
      in \<lparr>openRate = js_div (of_int (Math_round (js_mul openRate0 100))) 100,
          clickRate = js_div (of_int (Math_round (js_mul clickRate0 100))) 100,
          replyRate = js_div (of_int (Math_round (js_mul replyRate0 100))) 100,
          unsubscribeRate = js_div (of_int (Math_round (js_mul unsubscribeRate0 100))) 100,
          bounceRate = js_div (of_int (Math_round (js_mul bounceRate0 100))) 100,
          overallScore = 0\<rparr>)"

definition calculateOverallScore :: "VariantMetrics \<Rightarrow> string \<Rightarrow> rat" where
  "calculateOverallScore metrics criteria =
     (let score0 =
            (if criteria = ''open_rate''
             then js_add (js_add (js_mul (openRate metrics) (fl (4 / 10)))
                                 (js_mul (clickRate metrics) (fl (3 / 10))))
                         (js_mul (replyRate metrics) (fl (3 / 10)))
             else if criteria = ''click_rate''
             then js_add (js_add (js_mul (clickRate metrics) (fl (5 / 10)))
                                 (js_mul (openRate metrics) (fl (3 / 10))))
                         (js_mul (replyRate metrics) (fl (2 / 10)))
             else if criteria = ''reply_rate''
             then js_add (js_add (js_mul (replyRate metrics) (fl (6 / 10)))
                                 (js_mul (clickRate metrics) (fl (3 / 10))))
                         (js_mul (openRate metrics) (fl (1 / 10)))
             else if criteria = ''conversion_rate''
             then js_add (js_add (js_mul (replyRate metrics) (fl (5 / 10)))
                                 (js_mul (clickRate metrics) (fl (3 / 10))))
                         (js_mul (openRate metrics) (fl (2 / 10)))
             else js_add (js_add (js_mul (openRate metrics) (fl (3 / 10)))
                                 (js_mul (clickRate metrics) (fl (3 / 10))))
                         (js_mul (replyRate metrics) (fl (4 / 10))));
          score1 = js_sub score0 (js_mul (unsubscribeRate metrics) (fl (5 / 10)));
          score2 = js_sub score1 (js_mul (bounceRate metrics) (fl (3 / 10)))
      in max 0 (js_div (of_int (Math_round (js_mul score2 100))) 100))"

definition calculateConfidence :: "Performance \<Rightarrow> rat" where
  "calculateConfidence p =
     (let sampleSize = sent p
      in if sampleSize < 10 then fl (3 / 10)
         else if sampleSize < 50 then fl (6 / 10)
         else if sampleSize < 100 then fl (8 / 10)
         else if sampleSize < 500 then fl (9 / 10)
         else fl (95 / 100))"

record AbTestResult =
  testId :: string
  variantId :: string
  variantName :: string
  metrics :: VariantMetrics
  isWinner :: bool
  confidence :: rat
  sampleSize :: int

text \<open>
  The loop of \<open>analyzeAbTestResults\<close>.  It computes \<open>overallScore\<close> into a local constant
  and pushes \<open>metrics\<close> as \<open>calculateVariantMetrics\<close> returned it.
\<close>

fun collectResults :: "AbTesting \<Rightarrow> AbTestVariant list \<Rightarrow> AbTestResult list" where
  "collectResults ab [] = []"
| "collectResults ab (variant # rest) =
     (case performance variant of
        None \<Rightarrow> collectResults ab rest
      | Some p \<Rightarrow>
          if sent p = 0 then collectResults ab rest
          else
            (let m = calculateVariantMetrics p;
                 score = calculateOverallScore m (AbTesting.winnerCriteria ab)
             in \<lparr>testId = AbTesting.testType ab,
                 AbTestResult.variantId = AbTestVariant.variantId variant,
                 variantName = AbTestVariant.name variant,
                 metrics = m,
                 isWinner = False,
                 confidence = calculateConfidence p,
                 sampleSize = sent p\<rparr>
                # collectResults ab rest))"

text \<open>
  \<open>analyzeAbTestResults(campaignId)\<close>.  \<open>Array.prototype.sort\<close> is stable, and so is
  \<open>sort_key\<close>; sorting by \<open>b.metrics.overallScore - a.metrics.overallScore\<close> is sorting by
  the negated score in ascending order.
\<close>

definition analyzeAbTestResults :: "CampaignRepository \<Rightarrow> string \<Rightarrow> error + AbTestResult list" where
  "analyzeAbTestResults repo cid =
     (case repo cid of
        None \<Rightarrow> Inl (BadRequestException ''A/B test not found or not enabled'')
      | Some campaign \<Rightarrow>
          (case Campaign.abTesting campaign of
             None \<Rightarrow> Inl (BadRequestException ''A/B test not found or not enabled'')
           | Some ab \<Rightarrow>
               if \<not> enabled ab
               then Inl (BadRequestException ''A/B test not found or not enabled'')
               else
                 (case sort_key (\<lambda>r. - overallScore (metrics r))
                         (collectResults ab (AbTesting.variants ab)) of
                    [] \<Rightarrow> Inr []
                  | r # rs \<Rightarrow> Inr (r\<lparr>isWinner := True\<rparr> # rs))))"

section \<open>Sample values\<close>

text \<open>Concrete mailboxes, pools and campaigns on which the model is evaluated below.\<close>

definition sampleSendingConfig :: MailboxSendingConfig where
  "sampleSendingConfig =
     \<lparr>maxEmailsPerDay = 1000, maxEmailsPerHour = 100, maxEmailsPerMinute = 10,
      warmupEnabled = True, MailboxSendingConfig.warmupRate = 50, warmupIncrement = 10,
      currentWarmupRate = 990, lastWarmupUpdate = 0, timezone = ''UTC'',
      businessHoursOnly = True, businessHoursStart = ''09:00'', businessHoursEnd = ''17:00'',
      businessDays = [1, 2, 3, 4, 5]\<rparr>"

definition sampleMailbox :: "MailboxStatus \<Rightarrow> bool \<Rightarrow> bool \<Rightarrow> Mailbox" where
  "sampleMailbox st act hoursOnly =
     \<lparr>Mailbox.status = st,
      Mailbox.sendingConfig = Some (sampleSendingConfig\<lparr>businessHoursOnly := hoursOnly\<rparr>),
      Mailbox.isActive = act\<rparr>"

text \<open>An active mailbox with business hours on, from \<open>opening\<close> to \<open>closing\<close>.\<close>

definition sampleMailboxHours :: "string \<Rightarrow> string \<Rightarrow> Mailbox" where
  "sampleMailboxHours opening closing =
     \<lparr>Mailbox.status = MailboxStatus.ACTIVE,
      Mailbox.sendingConfig =
        Some (sampleSendingConfig\<lparr>businessHoursStart := opening, businessHoursEnd := closing\<rparr>),
      Mailbox.isActive = True\<rparr>"

definition sampleMailboxes :: "MailboxStatus \<Rightarrow> MailboxRepository" where
  "sampleMailboxes st = [''mb1'' \<mapsto> sampleMailbox st True True]"

definition samplePool :: IpPool where
  "samplePool =
     \<lparr>ipAddress = ''192.168.0.1'', IpPool.status = warming, dailyLimit = 1000,
      currentUsage = 0, IpPool.warmupRate = 700, lastUsed = 0\<rparr>"

text \<open>A second pool, with another address, that stands before the sample pool.\<close>

definition otherPool :: IpPool where
  "otherPool =
     \<lparr>ipAddress = ''10.0.0.1'', IpPool.status = warming, dailyLimit = 1000,
      currentUsage = 0, IpPool.warmupRate = 50, lastUsed = 0\<rparr>"

definition zeroProgress :: Progress where
  "zeroProgress =
     \<lparr>Progress.totalContacts = Some 0, processedContacts = Some 0, sentEmails = Some 0,
      failedEmails = Some 0, bouncedEmails = Some 0, unsubscribedEmails = Some 0,
      repliedEmails = Some 0, openedEmails = Some 0, clickedEmails = Some 0\<rparr>"

definition sampleConfig :: CampaignConfig where
  "sampleConfig =
     \<lparr>CampaignConfig.subject = Some ''Hello'', CampaignConfig.fromName = Some ''Ann'',
      CampaignConfig.fromEmail = Some ''ann@example.com'', replyTo = None, templateId = None,
      CampaignConfig.htmlContent = Some ''<p>Hi</p>'',
      CampaignConfig.textContent = Some ''Hi''\<rparr>"

definition sampleCampaign :: "CampaignStatus \<Rightarrow> int option \<Rightarrow> Campaign" where
  "sampleCampaign st cap =
     \<lparr>Campaign.organizationId = ''org1'', Campaign.name = ''Launch'',
      Campaign.description = None, Campaign.status = st,
      Campaign.config = Some sampleConfig, Campaign.sequence = None,
      Campaign.targeting =
        Some \<lparr>contactListIds = [''list1''], filters = None, maxContacts = cap\<rparr>,
      Campaign.scheduledAt = None, startedAt = None, completedAt = None,
      Campaign.sendingConfig = None, abTesting = None,
      Campaign.progress = Some zeroProgress\<rparr>"

definition sampleCampaigns :: "CampaignStatus \<Rightarrow> int option \<Rightarrow> CampaignRepository" where
  "sampleCampaigns st cap = [''c1'' \<mapsto> sampleCampaign st cap]"

definition sampleLists :: ContactListRepository where
  "sampleLists =
     [''list1'' \<mapsto> \<lparr>stats = Some \<lparr>ContactListStats.totalContacts = 10,
                                      activeContacts = 10\<rparr>\<rparr>]"

text \<open>
  An update that carries nothing, and the updates made of it: one that carries a
  \<open>scheduledAt\<close> alone, and one that carries a \<open>status\<close> alone.
\<close>

definition emptyDto :: UpdateCampaignDto where
  "emptyDto =
     \<lparr>UpdateCampaignDto.campaignId = None, UpdateCampaignDto.organizationId = None,
      UpdateCampaignDto.name = None, UpdateCampaignDto.description = None,
      UpdateCampaignDto.status = None, UpdateCampaignDto.config = None,
      UpdateCampaignDto.sequence = None, UpdateCampaignDto.targeting = None,
      UpdateCampaignDto.scheduledAt = None, UpdateCampaignDto.startedAt = None,
      UpdateCampaignDto.completedAt = None, UpdateCampaignDto.sendingConfig = None,
      UpdateCampaignDto.abTesting = None, UpdateCampaignDto.progress = None\<rparr>"


definition statusDto :: "CampaignStatus \<Rightarrow> UpdateCampaignDto" where
  "statusDto st = emptyDto\<lparr>UpdateCampaignDto.status := Some st\<rparr>"

definition sampleVariantConfig :: "string \<Rightarrow> AbTestVariantConfig" where
  "sampleVariantConfig s =
     \<lparr>AbTestVariantConfig.subject = Some s, AbTestVariantConfig.htmlContent = None,
      AbTestVariantConfig.textContent = None, AbTestVariantConfig.fromName = None,
      AbTestVariantConfig.fromEmail = None, sendTime = None\<rparr>"

definition samplePerformance :: "int \<Rightarrow> int \<Rightarrow> Performance" where
  "samplePerformance nSent nOpened =
     \<lparr>sent = nSent, opened = nOpened, clicked = 0, replied = 0, unsubscribed = 0, bounced = 0\<rparr>"

definition sampleVariant :: "string \<Rightarrow> string \<Rightarrow> rat \<Rightarrow> int \<Rightarrow> int \<Rightarrow> AbTestVariant" where
  "sampleVariant vid nm w nSent nOpened =
     \<lparr>AbTestVariant.variantId = vid, AbTestVariant.name = nm, AbTestVariant.weight = w,
      AbTestVariant.config = sampleVariantConfig nm,
      performance = Some (samplePerformance nSent nOpened)\<rparr>"

text \<open>
  The experiment of the spec's scenario: variant A (sent 100, opened 40) and variant B
  (weight 40, sent 80, opened 48) under the criterion \<open>open_rate\<close>, with a test size of
  500.  The weight of A is a parameter.
\<close>

definition sampleAbTesting :: "bool \<Rightarrow> string option \<Rightarrow> rat \<Rightarrow> AbTesting" where
  "sampleAbTesting en win wA =
     \<lparr>enabled = en, AbTesting.testType = ''subject'',
      AbTesting.variants =
        [sampleVariant ''variant-1'' ''A'' wA 100 40,
         sampleVariant ''variant-2'' ''B'' 40 80 48],
      AbTesting.testSize = 500, AbTesting.testDuration = 24,
      AbTesting.winnerCriteria = ''open_rate'', winnerSelected = win\<rparr>"

definition sampleExperiment :: "bool \<Rightarrow> string option \<Rightarrow> rat \<Rightarrow> CampaignRepository" where
  "sampleExperiment en win wA =
     [''c1'' \<mapsto> (sampleCampaign CampaignStatus.DRAFT None)
                   \<lparr>abTesting := Some (sampleAbTesting en win wA)\<rparr>]"

definition sampleTestConfig :: "rat \<Rightarrow> TestConfig" where
  "sampleTestConfig wA =
     \<lparr>TestConfig.testType = ''subject'',
      TestConfig.variants =
        [\<lparr>VariantInput.name = ''A'', VariantInput.weight = wA,
          VariantInput.config = sampleVariantConfig ''A''\<rparr>,
         \<lparr>VariantInput.name = ''B'', VariantInput.weight = 40,
          VariantInput.config = sampleVariantConfig ''B''\<rparr>],
      TestConfig.testSize = 500, TestConfig.testDuration = 24,
      TestConfig.winnerCriteria = ''open_rate''\<rparr>"

text \<open>A configuration with the weights 10.01 and 90, as doubles.\<close>

definition decimalTestConfig :: TestConfig where
  "decimalTestConfig =
     \<lparr>TestConfig.testType = ''subject'',
      TestConfig.variants =
        [\<lparr>VariantInput.name = ''A'', VariantInput.weight = fl (1001 / 100),
          VariantInput.config = sampleVariantConfig ''A''\<rparr>,
         \<lparr>VariantInput.name = ''B'', VariantInput.weight = 90,
          VariantInput.config = sampleVariantConfig ''B''\<rparr>],
      TestConfig.testSize = 500, TestConfig.testDuration = 24,
      TestConfig.winnerCriteria = ''open_rate''\<rparr>"

section \<open>The claims' own notions\<close>

text \<open>
  The notation \<open>HH:MM\<close> of a time of day, as in the entity's \<open>09:00\<close> and \<open>17:00\<close>:
  hour and minute with two decimal digits each.
\<close>

definition two_digits :: "nat \<Rightarrow> string" where
  "two_digits n = [''0123456789'' ! (n div 10), ''0123456789'' ! (n mod 10)]"

definition HHMM :: "nat \<Rightarrow> nat \<Rightarrow> string" where
  "HHMM h m = two_digits h @ '':'' @ two_digits m"


text \<open>
  The notions of the claim on scoring, as amended: rounding to two decimals,
  \<open>Math.round(x * 100) / 100\<close>, and the rate \<open>count / sent\<close> as a percentage rounded to
  two decimals, 0 when nothing was sent; both in the arithmetic of doubles.
\<close>

definition twoDecimals :: "rat \<Rightarrow> rat" where
  "twoDecimals x = js_div (of_int (Math_round (js_mul x 100))) 100"

definition percentRate :: "int \<Rightarrow> int \<Rightarrow> rat" where
  "percentRate n nSent =
     (if nSent > 0 then twoDecimals (js_mul (js_div (of_int n) (of_int nSent)) 100) else 0)"

text \<open>
  The variants \<open>createAbTest\<close> stores for the variants it is given: the same expression as
  in \<open>createAbTest\<close>, under a name.
\<close>

definition storedVariants :: "VariantInput list \<Rightarrow> AbTestVariant list" where
  "storedVariants vs =
     map (\<lambda>(index, v).
            \<lparr>AbTestVariant.variantId = ''variant-'' @ string_of_nat (index + 1),
             AbTestVariant.name = VariantInput.name v,
             AbTestVariant.weight = VariantInput.weight v,
             AbTestVariant.config = VariantInput.config v,
             performance = None\<rparr>)
         (enumerate 0 vs)"


section \<open>Properties of the rounding to doubles\<close>

lemma round_half_even_near:
  assumes "\<bar>y - of_int n\<bar> < 1 / 2"
  shows "round_half_even y = n"
proof (cases "of_int n \<le> y")
  case True
  with assms have "\<lfloor>y\<rfloor> = n" by (simp add: floor_eq_iff abs_less_iff)
  with assms True show ?thesis by (simp add: round_half_even_def Let_def abs_less_iff)
next
  case False
  with assms have "\<lfloor>y\<rfloor> = n - 1" by (simp add: floor_eq_iff abs_less_iff)
  with assms False show ?thesis by (simp add: round_half_even_def Let_def abs_less_iff)
qed

lemma round_half_even_int: "round_half_even (of_int n) = n"
  by (rule round_half_even_near) simp

text \<open>The search finds the binade of a number that lies within its range.\<close>

lemma binade_eq:
  "2 powi e' \<le> x \<Longrightarrow> x < 2 powi (e' + 1) \<Longrightarrow> e' \<le> e \<Longrightarrow> e - e' < int n
   \<Longrightarrow> binade n e x = e'"
proof (induction n arbitrary: e)
  case 0
  then show ?case by simp
next
  case (Suc n)
  show ?case
  proof (cases "e = e'")
    case True
    with Suc.prems show ?thesis by simp
  next
    case False
    with Suc.prems have lt: "e' + 1 \<le> e" by simp
    have "(2::rat) powi (e' + 1) \<le> 2 powi e"
      using lt by (intro power_int_increasing) simp_all
    with Suc.prems have "\<not> 2 powi e \<le> x" by simp
    moreover have "binade n (e - 1) x = e'"
      using Suc.prems lt by (intro Suc.IH) simp_all
    ultimately show ?thesis by simp
  qed
qed

lemma binade_bounds:
  "2 powi (e - int n) \<le> x \<Longrightarrow> x < 2 powi (e + 1) \<Longrightarrow>
   2 powi (binade n e x) \<le> x \<and> x < 2 powi (binade n e x + 1)"
proof (induction n arbitrary: e)
  case 0
  then show ?case by simp
next
  case (Suc n)
  show ?case
  proof (cases "2 powi e \<le> x")
    case True
    with Suc.prems show ?thesis by simp
  next
    case False
    then have "x < 2 powi (e - 1 + 1)" by simp
    moreover from Suc.prems have "2 powi (e - 1 - int n) \<le> x"
      by (simp add: algebra_simps)
    ultimately have "2 powi (binade n (e - 1) x) \<le> x \<and> x < 2 powi (binade n (e - 1) x + 1)"
      by (intro Suc.IH)
    with False show ?thesis by simp
  qed
qed

text \<open>
  The rule by which \<open>fl\<close> is evaluated below: when \<open>x\<close> scaled by \<open>2 ^ k\<close> has a
  magnitude from \<open>2 ^ 52\<close> up to \<open>2 ^ 53\<close> and lies nearer than a half to the integer
  \<open>n\<close>, the double nearest to \<open>x\<close> is \<open>n / 2 ^ k\<close>.
\<close>

lemma fl_near:
  assumes "2 ^ 52 \<le> \<bar>x\<bar> * 2 ^ k" and "\<bar>x\<bar> * 2 ^ k < 2 ^ 53" and "k \<le> 1074"
    and "\<bar>x * 2 ^ k - of_int n\<bar> < 1 / 2"
  shows "fl x = of_int n / 2 ^ k"
proof -
  have p1: "(2::rat) powi (52 - int k) = 2 ^ 52 / 2 ^ k"
    by (simp add: power_int_diff)
  have p2: "(2::rat) powi (52 - int k + 1) = 2 ^ 53 / 2 ^ k"
    by (simp add: power_int_diff power_int_add)
  from assms(1) have a1: "2 powi (52 - int k) \<le> \<bar>x\<bar>"
    by (simp add: p1 pos_divide_le_eq)
  from assms(2) have a2: "\<bar>x\<bar> < 2 powi (52 - int k + 1)"
    by (simp only: p2) (simp add: pos_less_divide_eq)
  from assms(3) have "binade 2046 1023 \<bar>x\<bar> = 52 - int k"
    by (intro binade_eq a1 a2) simp_all
  with assms(3) have u: "ulp_exponent x = - int k"
    by (simp add: ulp_exponent_def)
  have "x / 2 powi (- int k) = x * 2 ^ k"
    by (simp add: power_int_minus field_simps)
  with assms(4) have "round_half_even (x / 2 powi (- int k)) = n"
    by (simp add: round_half_even_near)
  then show ?thesis
    by (simp add: fl_def u power_int_minus field_simps)
qed

lemma fl_zero: "fl 0 = 0"
  by (simp add: fl_def round_half_even_def)

text \<open>An integer below \<open>2 ^ 53\<close> in magnitude is a double.\<close>

lemma fl_int:
  assumes "\<bar>m\<bar> < 2 ^ 53"
  shows "fl (of_int m) = of_int m"
proof (cases "m = 0")
  case True
  then show ?thesis by (simp add: fl_zero)
next
  case False
  define x :: rat where "x = \<bar>of_int m\<bar>"
  define b where "b = binade 2046 1023 x"
  from False have x1: "1 \<le> x" by (simp add: x_def flip: of_int_abs)
  from assms have "\<bar>of_int m :: rat\<bar> < of_int (2 ^ 53)"
    unfolding of_int_abs [symmetric] of_int_less_iff .
  then have x2: "x < 2 ^ 53" by (simp add: x_def)
  have lo: "(2::rat) powi (1023 - int 2046) \<le> 1"
    using power_int_increasing [of "1023 - int 2046" 0 "2::rat"] by simp
  have hi: "(2::rat) ^ 53 \<le> 2 powi (1023 + 1)"
    using power_int_increasing [of 53 "1023 + 1" "2::rat"] by simp
  from lo x1 have "2 powi (1023 - int 2046) \<le> x" by (rule order_trans)
  moreover from x2 hi have "x < 2 powi (1023 + 1)" by (rule less_le_trans)
  ultimately have bb: "2 powi b \<le> x \<and> x < 2 powi (b + 1)"
    unfolding b_def by (rule binade_bounds)
  have b0: "0 \<le> b"
  proof (rule ccontr)
    assume "\<not> 0 \<le> b"
    then have "b + 1 \<le> 0" by simp
    then have "(2::rat) powi (b + 1) \<le> 2 powi 0"
      by (intro power_int_increasing) simp_all
    with bb x1 show False by simp
  qed
  have b52: "b \<le> 52"
  proof (rule ccontr)
    assume "\<not> b \<le> 52"
    then have "53 \<le> b" by simp
    then have "(2::rat) powi 53 \<le> 2 powi b"
      by (intro power_int_increasing) simp_all
    with bb x2 show False by simp
  qed
  define k where "k = nat (52 - b)"
  from b0 b52 have u: "ulp_exponent (of_int m) = - int k"
    by (simp add: ulp_exponent_def b_def [symmetric] x_def [symmetric] k_def)
  have "of_int m / 2 powi (- int k) = (of_int (m * 2 ^ k) :: rat)"
    by (simp add: power_int_minus field_simps)
  then have "round_half_even (of_int m / 2 powi (- int k)) = m * 2 ^ k"
    by (simp only: round_half_even_int)
  then show ?thesis
    by (simp add: fl_def u power_int_minus field_simps)
qed

lemma fl_numeral: "fl 100 = 100" "fl 700 = 700"
  using fl_int [of 100] fl_int [of 700] by simp_all

section \<open>Properties of RateLimitingService\<close>

lemma findOneUsage_bound: "findOneUsage rows u e t = Some i \<Longrightarrow> i < length rows"
  by (induction rows arbitrary: i) (auto split: if_splits)

text \<open>The lookup finds a row exactly when the table holds one with the three values.\<close>

lemma findOneUsage_none_iff:
  "findOneUsage rows u e t = None \<longleftrightarrow>
     (\<forall>r \<in> set rows. \<not> (userId r = u \<and> endpoint r = e \<and> timestamp r = t))"
  by (induction rows) auto

lemma findOneUsage_first:
  "findOneUsage rows u e t = Some i \<Longrightarrow>
     userId (rows ! i) = u \<and> endpoint (rows ! i) = e \<and> timestamp (rows ! i) = t
     \<and> (\<forall>j < i. \<not> (userId (rows ! j) = u \<and> endpoint (rows ! j) = e
                      \<and> timestamp (rows ! j) = t))"
proof (induction rows arbitrary: i)
  case Nil
  then show ?case by simp
next
  case (Cons r rs)
  show ?case
  proof (cases "userId r = u \<and> endpoint r = e \<and> timestamp r = t")
    case True
    with Cons.prems show ?thesis by simp
  next
    case False
    with Cons.prems obtain k where k: "findOneUsage rs u e t = Some k" and i: "i = Suc k"
      by auto
    from Cons.IH [OF k] False i show ?thesis
      by (auto simp: less_Suc_eq_0_disj)
  qed
qed









section \<open>Properties of the Mailbox entity\<close>

lemma below_ten:
  "d < 10 \<Longrightarrow> d = 0 \<or> d = 1 \<or> d = 2 \<or> d = 3 \<or> d = 4 \<or> d = 5 \<or> d = 6 \<or> d = 7 \<or> d = 8
     \<or> d = (9::nat)"
  by arith

lemma digit_of_nth: "d < 10 \<Longrightarrow> digit_of (''0123456789'' ! d) = Some (int d)"
  using below_ten [of d] by (auto simp: digit_of_def)

lemma digit_not_colon: "d < 10 \<Longrightarrow> ''0123456789'' ! d \<noteq> CHR '':''"
  using below_ten [of d] by auto

text \<open>Two digits read as the number they denote, and \<open>HH:MM\<close> as its minute of the day.\<close>

lemma Number_two_digits:
  assumes "n < 100"
  shows "Number (two_digits n) = Some (int n)"
proof -
  from assms have d: "n div 10 < 10" "n mod 10 < 10" by simp_all
  have "int (n div 10) * 10 + int (n mod 10) = int n"
    by presburger
  then show ?thesis
    by (simp add: Number_def two_digits_def digit_of_nth d)
qed

lemma split_colon_HHMM:
  assumes "h < 100" and "m < 100"
  shows "split_colon (HHMM h m) = [two_digits h, two_digits m]"
proof -
  from assms have d: "h div 10 < 10" "h mod 10 < 10" "m div 10 < 10" "m mod 10 < 10"
    by simp_all
  show ?thesis
    by (simp add: HHMM_def two_digits_def digit_not_colon d)
qed

lemma minutesOfDay_HHMM:
  "h < 100 \<Longrightarrow> m < 100 \<Longrightarrow> minutesOfDay (HHMM h m) = Some (int h * 60 + int m)"
  by (simp add: minutesOfDay_def split_colon_HHMM Number_two_digits)

lemma HHMM_sample:
  "HHMM 9 0 = ''09:00''" "HHMM 17 0 = ''17:00''" "HHMM 9 30 = ''09:30''"
  "HHMM 17 45 = ''17:45''"
  by (simp_all add: HHMM_def two_digits_def)

text \<open>
  Claim C2, as amended.  A mailbox is ready exactly when its \<open>isActive\<close> flag is set and
  its status is \<open>active\<close>, so a mailbox that is \<open>warming_up\<close>, \<open>pending\<close>,
  \<open>suspended\<close> or \<open>failed\<close> is never ready.  It is in its business hours when it has no
  sending configuration or the business-hours flag is off; and when the flag is on and the
  start and the end are written \<open>HH:MM\<close> with two decimal digits each, it is in its
  business hours exactly when the weekday of the clock reading is one of the configured
  days and the reading's minute of the day, \<open>60 * hours + minutes\<close>, lies between that of
  the start and that of the end, both included.
\<close>

theorem mailbox_ready_in_hours:
  "(isReady m \<longleftrightarrow> Mailbox.isActive m \<and> Mailbox.status m = MailboxStatus.ACTIVE)
   \<and> (Mailbox.sendingConfig m = None \<longrightarrow> isInBusinessHours m now = Some True)
   \<and> (Mailbox.sendingConfig m = Some sc \<and> \<not> businessHoursOnly sc \<longrightarrow>
        isInBusinessHours m now = Some True)
   \<and> (Mailbox.sendingConfig m = Some sc \<and> businessHoursOnly sc
       \<and> businessHoursStart sc = HHMM sh sm \<and> businessHoursEnd sc = HHMM eh em
       \<and> sh < 100 \<and> sm < 100 \<and> eh < 100 \<and> em < 100 \<longrightarrow>
        isInBusinessHours m now =
          Some (getDay now \<in> set (businessDays sc)
                \<and> int sh * 60 + int sm \<le> getHours now * 60 + getMinutes now
                \<and> getHours now * 60 + getMinutes now \<le> int eh * 60 + int em))"
proof (intro conjI impI)
  show "isReady m \<longleftrightarrow> Mailbox.isActive m \<and> Mailbox.status m = MailboxStatus.ACTIVE"
    by (simp add: isReady_def)
next
  assume "Mailbox.sendingConfig m = None"
  then show "isInBusinessHours m now = Some True"
    by (simp add: isInBusinessHours_def)
next
  assume "Mailbox.sendingConfig m = Some sc \<and> \<not> businessHoursOnly sc"
  then show "isInBusinessHours m now = Some True"
    by (simp add: isInBusinessHours_def)
next
  assume a: "Mailbox.sendingConfig m = Some sc \<and> businessHoursOnly sc
       \<and> businessHoursStart sc = HHMM sh sm \<and> businessHoursEnd sc = HHMM eh em
       \<and> sh < 100 \<and> sm < 100 \<and> eh < 100 \<and> em < 100"
  then have s: "minutesOfDay (HHMM sh sm) = Some (int sh * 60 + int sm)"
    and e: "minutesOfDay (HHMM eh em) = Some (int eh * 60 + int em)"
    by (simp_all add: minutesOfDay_HHMM)
  from a show "isInBusinessHours m now =
          Some (getDay now \<in> set (businessDays sc)
                \<and> int sh * 60 + int sm \<le> getHours now * 60 + getMinutes now
                \<and> getHours now * 60 + getMinutes now \<le> int eh * 60 + int em)"
    by (simp add: isInBusinessHours_def Let_def s e)
qed

text \<open>
  An active mailbox with business hours from 09:30 to 17:45 on Monday to Friday.  On a
  Monday it is outside its hours at 09:29, inside at 09:30 and at 17:45, and outside at
  17:46; on a Sunday it is outside at noon.  A mailbox with the business-hours flag off,
  and one without a sending configuration, are in their business hours on a Sunday at 3.
\<close>

theorem mailbox_ready_in_hours_witness:
  "isReady (sampleMailbox MailboxStatus.ACTIVE True True)
   \<and> isInBusinessHours (sampleMailboxHours ''09:30'' ''17:45'')
        \<lparr>getHours = 9, getMinutes = 29, getDay = 1\<rparr> = Some False
   \<and> isInBusinessHours (sampleMailboxHours ''09:30'' ''17:45'')
        \<lparr>getHours = 9, getMinutes = 30, getDay = 1\<rparr> = Some True
   \<and> isInBusinessHours (sampleMailboxHours ''09:30'' ''17:45'')
        \<lparr>getHours = 17, getMinutes = 45, getDay = 1\<rparr> = Some True
   \<and> isInBusinessHours (sampleMailboxHours ''09:30'' ''17:45'')
        \<lparr>getHours = 17, getMinutes = 46, getDay = 1\<rparr> = Some False
   \<and> isInBusinessHours (sampleMailboxHours ''09:30'' ''17:45'')
        \<lparr>getHours = 12, getMinutes = 0, getDay = 0\<rparr> = Some False
   \<and> isInBusinessHours (sampleMailbox MailboxStatus.ACTIVE True False)
        \<lparr>getHours = 3, getMinutes = 0, getDay = 0\<rparr> = Some True
   \<and> isInBusinessHours
        ((sampleMailbox MailboxStatus.ACTIVE True True)\<lparr>Mailbox.sendingConfig := None\<rparr>)
        \<lparr>getHours = 3, getMinutes = 0, getDay = 0\<rparr> = Some True"
proof -
  define sc where
    "sc = sampleSendingConfig\<lparr>businessHoursStart := ''09:30'', businessHoursEnd := ''17:45''\<rparr>"
  have c: "Mailbox.sendingConfig (sampleMailboxHours ''09:30'' ''17:45'') = Some sc"
    by (simp add: sampleMailboxHours_def sc_def)
  have h: "businessHoursOnly sc" "businessHoursStart sc = HHMM 9 30"
    "businessHoursEnd sc = HHMM 17 45" "businessDays sc = [1, 2, 3, 4, 5]"
    by (simp_all add: sc_def sampleSendingConfig_def HHMM_sample)
  note t = mailbox_ready_in_hours
    [where m = "sampleMailboxHours ''09:30'' ''17:45''" and sc = sc
       and sh = 9 and sm = 30 and eh = 17 and em = 45]
  have "isReady (sampleMailbox MailboxStatus.ACTIVE True True)"
    using mailbox_ready_in_hours [of "sampleMailbox MailboxStatus.ACTIVE True True"]
    by (simp add: sampleMailbox_def)
  moreover have "isInBusinessHours (sampleMailboxHours ''09:30'' ''17:45'')
        \<lparr>getHours = 9, getMinutes = 29, getDay = 1\<rparr> = Some False"
    using t [of "\<lparr>getHours = 9, getMinutes = 29, getDay = 1\<rparr>"] by (simp add: c h)
  moreover have "isInBusinessHours (sampleMailboxHours ''09:30'' ''17:45'')
        \<lparr>getHours = 9, getMinutes = 30, getDay = 1\<rparr> = Some True"
    using t [of "\<lparr>getHours = 9, getMinutes = 30, getDay = 1\<rparr>"] by (simp add: c h)
  moreover have "isInBusinessHours (sampleMailboxHours ''09:30'' ''17:45'')
        \<lparr>getHours = 17, getMinutes = 45, getDay = 1\<rparr> = Some True"
    using t [of "\<lparr>getHours = 17, getMinutes = 45, getDay = 1\<rparr>"] by (simp add: c h)
  moreover have "isInBusinessHours (sampleMailboxHours ''09:30'' ''17:45'')
        \<lparr>getHours = 17, getMinutes = 46, getDay = 1\<rparr> = Some False"
    using t [of "\<lparr>getHours = 17, getMinutes = 46, getDay = 1\<rparr>"] by (simp add: c h)
  moreover have "isInBusinessHours (sampleMailboxHours ''09:30'' ''17:45'')
        \<lparr>getHours = 12, getMinutes = 0, getDay = 0\<rparr> = Some False"
    using t [of "\<lparr>getHours = 12, getMinutes = 0, getDay = 0\<rparr>"] by (simp add: c h)
  moreover have "isInBusinessHours (sampleMailbox MailboxStatus.ACTIVE True False)
        \<lparr>getHours = 3, getMinutes = 0, getDay = 0\<rparr> = Some True"
    using mailbox_ready_in_hours
      [where m = "sampleMailbox MailboxStatus.ACTIVE True False"
         and sc = "sampleSendingConfig\<lparr>businessHoursOnly := False\<rparr>"
         and now = "\<lparr>getHours = 3, getMinutes = 0, getDay = 0\<rparr>"]
    by (simp add: sampleMailbox_def)
  moreover have "isInBusinessHours
        ((sampleMailbox MailboxStatus.ACTIVE True True)\<lparr>Mailbox.sendingConfig := None\<rparr>)
        \<lparr>getHours = 3, getMinutes = 0, getDay = 0\<rparr> = Some True"
    using mailbox_ready_in_hours
      [where m = "(sampleMailbox MailboxStatus.ACTIVE True True)
                    \<lparr>Mailbox.sendingConfig := None\<rparr>"
         and now = "\<lparr>getHours = 3, getMinutes = 0, getDay = 0\<rparr>"]
    by simp
  ultimately show ?thesis by simp
qed

text \<open>
  Claim C2 as stated fails.  A mailbox that is \<open>warming_up\<close>, with business hours off, is
  not ready; neither is an \<open>active\<close> mailbox whose \<open>isActive\<close> flag is off.
\<close>

theorem mailbox_eligible_counterexample:
  "Mailbox.status (sampleMailbox MailboxStatus.WARMING_UP True False) = MailboxStatus.WARMING_UP
   \<and> isInBusinessHours (sampleMailbox MailboxStatus.WARMING_UP True False)
        \<lparr>getHours = 12, getMinutes = 0, getDay = 1\<rparr> = Some True
   \<and> \<not> isReady (sampleMailbox MailboxStatus.WARMING_UP True False)
   \<and> Mailbox.status (sampleMailbox MailboxStatus.ACTIVE False False) = MailboxStatus.ACTIVE
   \<and> isInBusinessHours (sampleMailbox MailboxStatus.ACTIVE False False)
        \<lparr>getHours = 12, getMinutes = 0, getDay = 1\<rparr> = Some True
   \<and> \<not> isReady (sampleMailbox MailboxStatus.ACTIVE False False)"
  by (simp add: sampleMailbox_def sampleSendingConfig_def isReady_def isInBusinessHours_def)
section \<open>Properties of warmup\<close>

lemma warmupMailbox_success:
  assumes "repo mid = Some m" and "Mailbox.sendingConfig m = Some sc"
    and "Mailbox.status m = MailboxStatus.ACTIVE" and "warmupEnabled sc"
  shows "warmupMailbox repo now mid =
     (Inr (m\<lparr>Mailbox.status := MailboxStatus.WARMING_UP,
              Mailbox.sendingConfig := Some (sc
                \<lparr>currentWarmupRate := min (currentWarmupRate sc + warmupIncrement sc)
                                          (maxEmailsPerDay sc),
                 lastWarmupUpdate := now\<rparr>)\<rparr>),
      repo(mid \<mapsto> m\<lparr>Mailbox.status := MailboxStatus.WARMING_UP,
              Mailbox.sendingConfig := Some (sc
                \<lparr>currentWarmupRate := min (currentWarmupRate sc + warmupIncrement sc)
                                          (maxEmailsPerDay sc),
                 lastWarmupUpdate := now\<rparr>)\<rparr>))"
  using assms by (simp add: warmupMailbox_def MailboxesService_findById_def Let_def)

lemma warmupMailbox_disabled:
  assumes "repo mid = Some m" and "Mailbox.sendingConfig m = Some sc" and "\<not> warmupEnabled sc"
  shows "\<exists>msg. warmupMailbox repo now mid = (Inl (BadRequestException msg), repo)"
  using assms by (simp add: warmupMailbox_def MailboxesService_findById_def)

lemma warmupMailbox_wrong_status:
  assumes "repo mid = Some m"
    and "Mailbox.status m \<in> {MailboxStatus.PENDING, MailboxStatus.SUSPENDED, MailboxStatus.FAILED}"
  shows "\<exists>msg. warmupMailbox repo now mid = (Inl (BadRequestException msg), repo)"
  using assms by (auto simp: warmupMailbox_def MailboxesService_findById_def)

text \<open>The list-level \<open>updateIpUsage\<close> changes the first pool with the address, and it alone.\<close>

lemma updateIpUsage_first:
  assumes "i < length pools" and "ipAddress (pools ! i) = ip"
    and "\<forall>j < i. ipAddress (pools ! j) \<noteq> ip"
  shows "updateIpUsage pools t ip usage = pools[i := updateIpUsage_found (pools ! i) t usage]"
  using assms
proof (induction pools arbitrary: i)
  case Nil
  then show ?case by simp
next
  case (Cons p ps)
  show ?case
  proof (cases i)
    case 0
    with Cons.prems show ?thesis by simp
  next
    case (Suc k)
    with Cons.prems have p: "ipAddress p \<noteq> ip" by auto
    from Suc Cons.prems have "k < length ps" and "ipAddress (ps ! k) = ip"
      and "\<forall>j < k. ipAddress (ps ! j) \<noteq> ip"
      by auto
    then have "updateIpUsage ps t ip usage = ps[k := updateIpUsage_found (ps ! k) t usage]"
      by (rule Cons.IH)
    with p Suc show ?thesis by simp
  qed
qed

lemma updateIpUsage_none:
  "\<forall>p \<in> set pools. ipAddress p \<noteq> ip \<Longrightarrow> updateIpUsage pools t ip usage = pools"
  by (induction pools) simp_all

lemma updateIpUsage_found_warming:
  assumes "IpPool.status p = warming"
    and "IpPool.warmupRate p \<le> js_add (currentUsage p) usage"
  shows "updateIpUsage_found p t usage =
     p\<lparr>currentUsage := js_add (currentUsage p) usage, lastUsed := t,
       IpPool.warmupRate := min (js_mul (IpPool.warmupRate p) (fl (12 / 10))) (dailyLimit p),
       IpPool.status :=
         (if js_mul (dailyLimit p) (fl (8 / 10))
               \<le> min (js_mul (IpPool.warmupRate p) (fl (12 / 10))) (dailyLimit p)
          then active else warming)\<rparr>"
  using assms by (cases p) (simp add: updateIpUsage_found_def Let_def)

lemma updateIpUsage_found_other:
  assumes "IpPool.status p \<noteq> warming \<or> js_add (currentUsage p) usage < IpPool.warmupRate p"
  shows "updateIpUsage_found p t usage =
     p\<lparr>currentUsage := js_add (currentUsage p) usage, lastUsed := t\<rparr>"
  using assms by (auto simp: updateIpUsage_found_def Let_def)

text \<open>
  The doubles \<open>1.2\<close> and \<open>0.8\<close>, nearest to \<open>6/5\<close> and \<open>4/5\<close>, and the products of
  the sample pool: \<open>700 * 1.2\<close> is 840 and \<open>1000 * 0.8\<close> is 800 in doubles.
\<close>

lemma fl_12_10: "fl (6 / 5) = 5404319552844595 / 2 ^ 52"
  using fl_near [of "6 / 5" 52 5404319552844595] by simp

lemma fl_8_10: "fl (4 / 5) = 3602879701896397 / 2 ^ 52"
  using fl_near [of "4 / 5" 53 7205759403792794] by simp

lemma samplePool_products:
  "js_mul 700 (fl (6 / 5)) = 840" "js_mul 1000 (fl (4 / 5)) = 800"
  "js_add 0 700 = 700" "js_add 700 900 = 1600"
proof -
  show "js_mul 700 (fl (6 / 5)) = 840"
    unfolding js_mul_def
    using fl_near [of "700 * fl (6 / 5)" 43 7388718138654720] by (simp add: fl_12_10)
  show "js_mul 1000 (fl (4 / 5)) = 800"
    unfolding js_mul_def
    using fl_near [of "1000 * fl (4 / 5)" 43 7036874417766400] by (simp add: fl_8_10)
  show "js_add 0 700 = 700"
    unfolding js_add_def using fl_int [of 700] by simp
  show "js_add 700 900 = 1600"
    unfolding js_add_def using fl_int [of 1600] by simp
qed

text \<open>
  Claim C3, as amended.  For a stored mailbox with a sending configuration:
  \<open>warmupMailbox\<close> is accepted when the status is \<open>active\<close> and warmup is enabled; it then
  stores and returns the mailbox with \<open>currentWarmupRate\<close> set to
  \<open>min(currentWarmupRate + warmupIncrement, maxEmailsPerDay)\<close> and the status set to
  \<open>warming_up\<close>, whatever share of the cap the new rate reaches.  The new rate never
  exceeds the cap, and it is not below the old rate when the increment is not negative and
  the old rate was within the cap.  The call is rejected, the table unchanged, when warmup
  is disabled or the status is \<open>pending\<close>, \<open>suspended\<close> or \<open>failed\<close>.  Graduation
  at 80% exists for IP pools only.  \<open>updateIpUsage\<close> changes the first pool with the given
  address, and no other: it adds the usage to the pool's \<open>currentUsage\<close> and sets
  \<open>lastUsed\<close>; when the pool is \<open>warming\<close> and the new usage reaches its warmup rate, it
  also sets the rate to \<open>min(warmupRate * 1.2, dailyLimit)\<close> and makes the pool \<open>active\<close>
  exactly when the new rate is at least \<open>dailyLimit * 0.8\<close>, the two products being those
  of doubles; otherwise it changes neither the rate nor the status, so a pool that is
  \<open>active\<close> stays \<open>active\<close>.  When no pool has the address, nothing changes.
\<close>

theorem warmupMailbox_advance:
  assumes "repo mid = Some m" and "Mailbox.sendingConfig m = Some sc"
  shows
    "(Mailbox.status m = MailboxStatus.ACTIVE \<and> warmupEnabled sc \<longrightarrow>
        warmupMailbox repo now mid =
          (Inr (m\<lparr>Mailbox.status := MailboxStatus.WARMING_UP,
                   Mailbox.sendingConfig := Some (sc
                     \<lparr>currentWarmupRate := min (currentWarmupRate sc + warmupIncrement sc)
                                               (maxEmailsPerDay sc),
                      lastWarmupUpdate := now\<rparr>)\<rparr>),
           repo(mid \<mapsto> m\<lparr>Mailbox.status := MailboxStatus.WARMING_UP,
                   Mailbox.sendingConfig := Some (sc
                     \<lparr>currentWarmupRate := min (currentWarmupRate sc + warmupIncrement sc)
                                               (maxEmailsPerDay sc),
                      lastWarmupUpdate := now\<rparr>)\<rparr>))
        \<and> min (currentWarmupRate sc + warmupIncrement sc) (maxEmailsPerDay sc)
             \<le> maxEmailsPerDay sc
        \<and> (0 \<le> warmupIncrement sc \<and> currentWarmupRate sc \<le> maxEmailsPerDay sc \<longrightarrow>
             currentWarmupRate sc
               \<le> min (currentWarmupRate sc + warmupIncrement sc) (maxEmailsPerDay sc)))
     \<and> (\<not> warmupEnabled sc
         \<or> Mailbox.status m \<in> {MailboxStatus.PENDING, MailboxStatus.SUSPENDED,
                                  MailboxStatus.FAILED} \<longrightarrow>
        (\<exists>msg. warmupMailbox repo now mid = (Inl (BadRequestException msg), repo)))
     \<and> (i < length pools \<and> ipAddress (pools ! i) = ip
         \<and> (\<forall>j < i. ipAddress (pools ! j) \<noteq> ip)
         \<and> IpPool.status (pools ! i) = warming
         \<and> IpPool.warmupRate (pools ! i) \<le> js_add (currentUsage (pools ! i)) usage \<longrightarrow>
        updateIpUsage pools t ip usage =
          pools[i := (pools ! i)
            \<lparr>currentUsage := js_add (currentUsage (pools ! i)) usage, lastUsed := t,
             IpPool.warmupRate :=
               min (js_mul (IpPool.warmupRate (pools ! i)) (fl (12 / 10)))
                   (dailyLimit (pools ! i)),
             IpPool.status :=
               (if js_mul (dailyLimit (pools ! i)) (fl (8 / 10))
                     \<le> min (js_mul (IpPool.warmupRate (pools ! i)) (fl (12 / 10)))
                            (dailyLimit (pools ! i))
                then active else warming)\<rparr>])
     \<and> (i < length pools \<and> ipAddress (pools ! i) = ip
         \<and> (\<forall>j < i. ipAddress (pools ! j) \<noteq> ip)
         \<and> (IpPool.status (pools ! i) \<noteq> warming
              \<or> js_add (currentUsage (pools ! i)) usage < IpPool.warmupRate (pools ! i)) \<longrightarrow>
        updateIpUsage pools t ip usage =
          pools[i := (pools ! i)
            \<lparr>currentUsage := js_add (currentUsage (pools ! i)) usage, lastUsed := t\<rparr>])
     \<and> ((\<forall>p \<in> set pools. ipAddress p \<noteq> ip) \<longrightarrow> updateIpUsage pools t ip usage = pools)"
proof (intro conjI impI)
  assume a: "Mailbox.status m = MailboxStatus.ACTIVE \<and> warmupEnabled sc"
  from a assms show "warmupMailbox repo now mid =
          (Inr (m\<lparr>Mailbox.status := MailboxStatus.WARMING_UP,
                   Mailbox.sendingConfig := Some (sc
                     \<lparr>currentWarmupRate := min (currentWarmupRate sc + warmupIncrement sc)
                                               (maxEmailsPerDay sc),
                      lastWarmupUpdate := now\<rparr>)\<rparr>),
           repo(mid \<mapsto> m\<lparr>Mailbox.status := MailboxStatus.WARMING_UP,
                   Mailbox.sendingConfig := Some (sc
                     \<lparr>currentWarmupRate := min (currentWarmupRate sc + warmupIncrement sc)
                                               (maxEmailsPerDay sc),
                      lastWarmupUpdate := now\<rparr>)\<rparr>))"
    by (simp add: warmupMailbox_success)
next
  show "min (currentWarmupRate sc + warmupIncrement sc) (maxEmailsPerDay sc)
          \<le> maxEmailsPerDay sc"
    by simp
next
  assume "0 \<le> warmupIncrement sc \<and> currentWarmupRate sc \<le> maxEmailsPerDay sc"
  then show "currentWarmupRate sc
               \<le> min (currentWarmupRate sc + warmupIncrement sc) (maxEmailsPerDay sc)"
    by simp
next
  assume "\<not> warmupEnabled sc
         \<or> Mailbox.status m \<in> {MailboxStatus.PENDING, MailboxStatus.SUSPENDED,
                                  MailboxStatus.FAILED}"
  then show "\<exists>msg. warmupMailbox repo now mid = (Inl (BadRequestException msg), repo)"
  proof
    assume "\<not> warmupEnabled sc"
    with assms show ?thesis by (rule warmupMailbox_disabled)
  next
    assume "Mailbox.status m \<in> {MailboxStatus.PENDING, MailboxStatus.SUSPENDED,
                                  MailboxStatus.FAILED}"
    with assms(1) show ?thesis by (rule warmupMailbox_wrong_status)
  qed
next
  assume w: "i < length pools \<and> ipAddress (pools ! i) = ip
         \<and> (\<forall>j < i. ipAddress (pools ! j) \<noteq> ip)
         \<and> IpPool.status (pools ! i) = warming
         \<and> IpPool.warmupRate (pools ! i) \<le> js_add (currentUsage (pools ! i)) usage"
  then have "updateIpUsage pools t ip usage
               = pools[i := updateIpUsage_found (pools ! i) t usage]"
    by (intro updateIpUsage_first) simp_all
  moreover from w have "updateIpUsage_found (pools ! i) t usage =
      (pools ! i)
            \<lparr>currentUsage := js_add (currentUsage (pools ! i)) usage, lastUsed := t,
             IpPool.warmupRate :=
               min (js_mul (IpPool.warmupRate (pools ! i)) (fl (12 / 10)))
                   (dailyLimit (pools ! i)),
             IpPool.status :=
               (if js_mul (dailyLimit (pools ! i)) (fl (8 / 10))
                     \<le> min (js_mul (IpPool.warmupRate (pools ! i)) (fl (12 / 10)))
                            (dailyLimit (pools ! i))
                then active else warming)\<rparr>"
    by (intro updateIpUsage_found_warming) simp_all
  ultimately show "updateIpUsage pools t ip usage =
          pools[i := (pools ! i)
            \<lparr>currentUsage := js_add (currentUsage (pools ! i)) usage, lastUsed := t,
             IpPool.warmupRate :=
               min (js_mul (IpPool.warmupRate (pools ! i)) (fl (12 / 10)))
                   (dailyLimit (pools ! i)),
             IpPool.status :=
               (if js_mul (dailyLimit (pools ! i)) (fl (8 / 10))
                     \<le> min (js_mul (IpPool.warmupRate (pools ! i)) (fl (12 / 10)))
                            (dailyLimit (pools ! i))
                then active else warming)\<rparr>]"
    by (simp only:)
next
  assume w: "i < length pools \<and> ipAddress (pools ! i) = ip
         \<and> (\<forall>j < i. ipAddress (pools ! j) \<noteq> ip)
         \<and> (IpPool.status (pools ! i) \<noteq> warming
              \<or> js_add (currentUsage (pools ! i)) usage < IpPool.warmupRate (pools ! i))"
  then have "updateIpUsage pools t ip usage
               = pools[i := updateIpUsage_found (pools ! i) t usage]"
    by (intro updateIpUsage_first) simp_all
  moreover from w have "updateIpUsage_found (pools ! i) t usage =
      (pools ! i)\<lparr>currentUsage := js_add (currentUsage (pools ! i)) usage, lastUsed := t\<rparr>"
    by (intro updateIpUsage_found_other) simp
  ultimately show "updateIpUsage pools t ip usage =
          pools[i := (pools ! i)
            \<lparr>currentUsage := js_add (currentUsage (pools ! i)) usage, lastUsed := t\<rparr>]"
    by (simp only:)
next
  assume "\<forall>p \<in> set pools. ipAddress p \<noteq> ip"
  then show "updateIpUsage pools t ip usage = pools"
    by (rule updateIpUsage_none)
qed

text \<open>
  An \<open>active\<close> mailbox at rate 990 with increment 10 and cap 1000, and a \<open>suspended\<close>
  one.  Two pools, the second \<open>warming\<close> at rate 700 of 1000: 700 sends from its address
  raise its rate to 840 and make it \<open>active\<close>, the first pool staying as it was; 900
  further sends leave it \<open>active\<close> at rate 840; sends from an address that no pool has
  change nothing.
\<close>

theorem warmupMailbox_advance_witness:
  "fst (warmupMailbox (sampleMailboxes MailboxStatus.ACTIVE) 5 ''mb1'') =
     Inr \<lparr>Mailbox.status = MailboxStatus.WARMING_UP,
          Mailbox.sendingConfig =
            Some (sampleSendingConfig\<lparr>currentWarmupRate := 1000, lastWarmupUpdate := 5\<rparr>),
          Mailbox.isActive = True\<rparr>
   \<and> warmupMailbox (sampleMailboxes MailboxStatus.SUSPENDED) 5 ''mb1'' =
       (Inl (BadRequestException ''Only active mailboxes can be warmed up''),
        sampleMailboxes MailboxStatus.SUSPENDED)
   \<and> updateIpUsage [otherPool, samplePool] 5 ''192.168.0.1'' 700 =
       [otherPool,
        samplePool\<lparr>currentUsage := 700, lastUsed := 5, IpPool.warmupRate := 840,
                   IpPool.status := active\<rparr>]
   \<and> updateIpUsage
        [otherPool,
         samplePool\<lparr>currentUsage := 700, lastUsed := 5, IpPool.warmupRate := 840,
                    IpPool.status := active\<rparr>] 6 ''192.168.0.1'' 900 =
       [otherPool,
        samplePool\<lparr>currentUsage := 1600, lastUsed := 6, IpPool.warmupRate := 840,
                   IpPool.status := active\<rparr>]
   \<and> updateIpUsage [otherPool, samplePool] 5 ''172.16.0.1'' 700 = [otherPool, samplePool]"
proof -
  have h1: "sampleMailboxes MailboxStatus.ACTIVE ''mb1''
              = Some (sampleMailbox MailboxStatus.ACTIVE True True)"
    by (simp add: sampleMailboxes_def)
  have h2: "Mailbox.sendingConfig (sampleMailbox MailboxStatus.ACTIVE True True)
              = Some sampleSendingConfig"
    by (simp add: sampleMailbox_def sampleSendingConfig_def)
  have h3: "sampleMailboxes MailboxStatus.SUSPENDED ''mb1''
              = Some (sampleMailbox MailboxStatus.SUSPENDED True True)"
    by (simp add: sampleMailboxes_def)
  have h4: "Mailbox.sendingConfig (sampleMailbox MailboxStatus.SUSPENDED True True)
              = Some sampleSendingConfig"
    by (simp add: sampleMailbox_def sampleSendingConfig_def)
  define graduated where
    "graduated = samplePool\<lparr>currentUsage := 700, lastUsed := 5, IpPool.warmupRate := 840,
                            IpPool.status := active\<rparr>"
  note a = warmupMailbox_advance
    [where repo = "sampleMailboxes MailboxStatus.ACTIVE" and mid = "''mb1''"
       and m = "sampleMailbox MailboxStatus.ACTIVE True True" and sc = sampleSendingConfig
       and now = 5 and usage = 700 and t = 5 and i = 1
       and pools = "[otherPool, samplePool]" and ip = "''192.168.0.1''",
     OF h1 h2]
  note b = warmupMailbox_advance
    [where repo = "sampleMailboxes MailboxStatus.SUSPENDED" and mid = "''mb1''"
       and m = "sampleMailbox MailboxStatus.SUSPENDED True True" and sc = sampleSendingConfig
       and now = 5 and usage = 900 and t = 6 and i = 1
       and pools = "[otherPool, graduated]" and ip = "''192.168.0.1''",
     OF h3 h4]
  have w1: "fst (warmupMailbox (sampleMailboxes MailboxStatus.ACTIVE) 5 ''mb1'') =
     Inr \<lparr>Mailbox.status = MailboxStatus.WARMING_UP,
          Mailbox.sendingConfig =
            Some (sampleSendingConfig\<lparr>currentWarmupRate := 1000, lastWarmupUpdate := 5\<rparr>),
          Mailbox.isActive = True\<rparr>"
    using a by (simp add: sampleMailbox_def sampleSendingConfig_def)
  have w2: "warmupMailbox (sampleMailboxes MailboxStatus.SUSPENDED) 5 ''mb1'' =
       (Inl (BadRequestException ''Only active mailboxes can be warmed up''),
        sampleMailboxes MailboxStatus.SUSPENDED)"
    by (simp add: warmupMailbox_def MailboxesService_findById_def sampleMailboxes_def
                  sampleMailbox_def)
  have p3: "1 < length [otherPool, samplePool]
      \<and> ipAddress ([otherPool, samplePool] ! 1) = ''192.168.0.1''
      \<and> (\<forall>j < 1. ipAddress ([otherPool, samplePool] ! j) \<noteq> ''192.168.0.1'')
      \<and> IpPool.status ([otherPool, samplePool] ! 1) = warming
      \<and> IpPool.warmupRate ([otherPool, samplePool] ! 1)
           \<le> js_add (currentUsage ([otherPool, samplePool] ! 1)) 700"
    by (simp add: otherPool_def samplePool_def samplePool_products)
  have w3: "updateIpUsage [otherPool, samplePool] 5 ''192.168.0.1'' 700
              = [otherPool, graduated]"
    using a [THEN conjunct2, THEN conjunct2, THEN conjunct1, rule_format, OF p3]
    by (simp add: otherPool_def samplePool_def samplePool_products graduated_def)
  have p4: "1 < length [otherPool, graduated]
      \<and> ipAddress ([otherPool, graduated] ! 1) = ''192.168.0.1''
      \<and> (\<forall>j < 1. ipAddress ([otherPool, graduated] ! j) \<noteq> ''192.168.0.1'')
      \<and> (IpPool.status ([otherPool, graduated] ! 1) \<noteq> warming
           \<or> js_add (currentUsage ([otherPool, graduated] ! 1)) 900
               < IpPool.warmupRate ([otherPool, graduated] ! 1))"
    by (simp add: otherPool_def samplePool_def graduated_def)
  have w4: "updateIpUsage [otherPool, graduated] 6 ''192.168.0.1'' 900 =
       [otherPool,
        samplePool\<lparr>currentUsage := 1600, lastUsed := 6, IpPool.warmupRate := 840,
                   IpPool.status := active\<rparr>]"
    using b [THEN conjunct2, THEN conjunct2, THEN conjunct2, THEN conjunct1, rule_format, OF p4]
    by (simp add: otherPool_def samplePool_def samplePool_products graduated_def)
  have p5: "\<forall>p \<in> set [otherPool, samplePool]. ipAddress p \<noteq> ''172.16.0.1''"
    by (simp add: otherPool_def samplePool_def)
  note e = warmupMailbox_advance
    [where repo = "sampleMailboxes MailboxStatus.ACTIVE" and mid = "''mb1''"
       and m = "sampleMailbox MailboxStatus.ACTIVE True True" and sc = sampleSendingConfig
       and now = 5 and usage = 700 and t = 5 and i = 1
       and pools = "[otherPool, samplePool]" and ip = "''172.16.0.1''",
     OF h1 h2]
  have w5: "updateIpUsage [otherPool, samplePool] 5 ''172.16.0.1'' 700 = [otherPool, samplePool]"
    using e [THEN conjunct2, THEN conjunct2, THEN conjunct2, THEN conjunct2, THEN mp, OF p5] .
  from w1 w2 w3 w4 w5 show ?thesis by (simp add: graduated_def)
qed

text \<open>
  Claim C3 as stated fails.  \<open>warmupMailbox\<close> accepts an \<open>active\<close> mailbox, not a
  \<open>warming_up\<close> one; the accepted call below raises the rate to 1000, the whole cap, and
  leaves the mailbox \<open>warming_up\<close>, not \<open>active\<close>.  The same call on the mailbox once it
  is \<open>warming_up\<close> is rejected.
\<close>

theorem warmupMailbox_counterexample:
  "map_sum id Mailbox.status (fst (warmupMailbox (sampleMailboxes MailboxStatus.ACTIVE) 5 ''mb1''))
     = Inr MailboxStatus.WARMING_UP
   \<and> map_sum id (map_option currentWarmupRate \<circ> Mailbox.sendingConfig)
        (fst (warmupMailbox (sampleMailboxes MailboxStatus.ACTIVE) 5 ''mb1''))
     = Inr (Some 1000)
   \<and> warmupMailbox (sampleMailboxes MailboxStatus.WARMING_UP) 5 ''mb1'' =
       (Inl (BadRequestException ''Only active mailboxes can be warmed up''),
        sampleMailboxes MailboxStatus.WARMING_UP)"
  by (simp add: warmupMailbox_def MailboxesService_findById_def sampleMailboxes_def
                sampleMailbox_def sampleSendingConfig_def)

section \<open>Properties of the campaign lifecycle\<close>






text \<open>
  An update that carries a status.  The interface \<open>UpdateCampaignDto\<close> declares no such
  property, but \<open>Object.assign\<close> copies it: the update below makes a \<open>cancelled\<close>
  campaign \<open>active\<close>.
\<close>

lemma updateCampaign_body_status:
  "map_option Campaign.status
     (snd (updateCampaign (sampleCampaigns CampaignStatus.CANCELLED None) ''c1''
             (statusDto CampaignStatus.ACTIVE) ''org1'') ''c1'')
     = Some CampaignStatus.ACTIVE"
  by (simp add: updateCampaign_def CampaignsService_findById_def sampleCampaigns_def
                sampleCampaign_def statusDto_def emptyDto_def Object_assign_def Let_def
                assigned_def carriesDate_def)






lemma startCampaign_result:
  assumes "repo cid = Some c" and "Campaign.organizationId c = org"
  shows "startCampaign repo contactLists now cid org =
     (if \<not> canStart c then (Inl (BadRequestException ''Campaign cannot be started''), repo)
      else if calculateTotalContacts contactLists c = 0
      then (Inl (BadRequestException ''No contacts found for campaign''), repo)
      else (Inr (c\<lparr>Campaign.status := CampaignStatus.ACTIVE,
                    Campaign.startedAt := Some now,
                    Campaign.progress := Some
                      ((case Campaign.progress c of None \<Rightarrow> emptyProgress | Some p \<Rightarrow> p)
                       \<lparr>Progress.totalContacts := Some (calculateTotalContacts contactLists c),
                        processedContacts := Some 0\<rparr>)\<rparr>),
            repo(cid \<mapsto> c\<lparr>Campaign.status := CampaignStatus.ACTIVE,
                    Campaign.startedAt := Some now,
                    Campaign.progress := Some
                      ((case Campaign.progress c of None \<Rightarrow> emptyProgress | Some p \<Rightarrow> p)
                       \<lparr>Progress.totalContacts := Some (calculateTotalContacts contactLists c),
                        processedContacts := Some 0\<rparr>)\<rparr>)))"
  using assms by (simp add: startCampaign_def CampaignsService_findById_def Let_def)




section \<open>Properties of startCampaign\<close>

lemma calculateTotalContacts_sample: "calculateTotalContacts sampleLists (sampleCampaign CampaignStatus.DRAFT (Some (- 5))) = - 5"
  by (simp add: calculateTotalContacts_def sampleLists_def sampleCampaign_def ContactList_totalContacts_def)

text \<open>
  Claim C5 on the code.  \<open>startCampaign\<close> rejects a computed total of exactly 0
  (\<open>startCampaign_result\<close> above), so a negative total passes the guard.  Here the contact
  list holds 10 contacts and \<open>targeting.maxContacts\<close> is \<open>-5\<close>: the computed total is
  \<open>-5\<close>, the campaign becomes \<open>active\<close>, and \<open>-5\<close> is stored as its total.
\<close>

theorem startCampaign_negative_total:
  "calculateTotalContacts sampleLists (sampleCampaign CampaignStatus.DRAFT (Some (- 5))) = - 5
   \<and> map_sum id Campaign.status
        (fst (startCampaign (sampleCampaigns CampaignStatus.DRAFT (Some (- 5))) sampleLists 7
               ''c1'' ''org1''))
       = Inr CampaignStatus.ACTIVE
   \<and> map_sum id (map_option Progress.totalContacts \<circ> Campaign.progress)
        (fst (startCampaign (sampleCampaigns CampaignStatus.DRAFT (Some (- 5))) sampleLists 7
               ''c1'' ''org1''))
       = Inr (Some (Some (- 5)))"
proof -
  have h1: "sampleCampaigns CampaignStatus.DRAFT (Some (- 5)) ''c1''
              = Some (sampleCampaign CampaignStatus.DRAFT (Some (- 5)))"
    by (simp add: sampleCampaigns_def)
  have h2: "Campaign.organizationId (sampleCampaign CampaignStatus.DRAFT (Some (- 5))) = ''org1''"
    by (simp add: sampleCampaign_def)
  have h3: "canStart (sampleCampaign CampaignStatus.DRAFT (Some (- 5)))"
    by (simp add: canStart_def sampleCampaign_def)
  show ?thesis
    using startCampaign_result
      [where repo = "sampleCampaigns CampaignStatus.DRAFT (Some (- 5))" and cid = "''c1''"
         and c = "sampleCampaign CampaignStatus.DRAFT (Some (- 5))" and org = "''org1''"
         and contactLists = sampleLists and now = 7, OF h1 h2]
    by (simp add: h3 calculateTotalContacts_sample)
qed

section \<open>Properties of selectWinner\<close>

text \<open>
  Claim C6 on the code.  The experiment below has sent 180 of its test size of 500 and has
  \<open>variant-1\<close> recorded as winner: \<open>getAbTestStatus\<close> reports \<open>isComplete\<close> and
  \<open>canSelectWinner\<close> false.  \<open>selectWinner\<close> consults neither: the call for
  \<open>variant-2\<close> is accepted, stores \<open>variant-2\<close> as winner and copies its subject onto
  the campaign's configuration.
\<close>

theorem selectWinner_unguarded:
  "map_option isComplete (getAbTestStatus (sampleExperiment True (Some ''variant-1'') 60) ''c1'')
     = Some False
   \<and> map_option canSelectWinner
       (getAbTestStatus (sampleExperiment True (Some ''variant-1'') 60) ''c1'')
     = Some False
   \<and> map_sum id (map_option winnerSelected \<circ> Campaign.abTesting)
       (fst (selectWinner (sampleExperiment True (Some ''variant-1'') 60) ''c1'' ''variant-2''))
     = Inr (Some (Some ''variant-2''))
   \<and> map_sum id (map_option CampaignConfig.subject \<circ> Campaign.config)
       (fst (selectWinner (sampleExperiment True (Some ''variant-1'') 60) ''c1'' ''variant-2''))
     = Inr (Some (Some ''B''))
   \<and> map_option (map_option winnerSelected \<circ> Campaign.abTesting)
       (snd (selectWinner (sampleExperiment True (Some ''variant-1'') 60) ''c1'' ''variant-2'')
          ''c1'')
     = Some (Some (Some ''variant-2''))"
  by (simp add: getAbTestStatus_def selectWinner_def sampleExperiment_def sampleAbTesting_def
        sampleVariant_def samplePerformance_def sampleVariantConfig_def sampleCampaign_def
        sampleConfig_def sumCounter_def truthy_def findVariant_def spreadConfig_def Let_def)

section \<open>Properties of assignVariantToContact\<close>









section \<open>Properties of createAbTest\<close>

lemma createAbTest_rejected:
  assumes "repo cid = Some c"
    and "Campaign.status c \<noteq> CampaignStatus.DRAFT
         \<or> length (TestConfig.variants tc) < 2
         \<or> 5 < length (TestConfig.variants tc)
         \<or> fl (1 / 100) < \<bar>js_sub (totalWeight (TestConfig.variants tc)) 100\<bar>"
  shows "\<exists>msg. createAbTest repo cid tc = (Inl (BadRequestException msg), repo)"
  using assms by (auto simp: createAbTest_def Let_def)

lemma createAbTest_accepted:
  assumes "repo cid = Some c"
    and "Campaign.status c = CampaignStatus.DRAFT"
    and "2 \<le> length (TestConfig.variants tc)" and "length (TestConfig.variants tc) \<le> 5"
    and "\<bar>js_sub (totalWeight (TestConfig.variants tc)) 100\<bar> \<le> fl (1 / 100)"
  shows "createAbTest repo cid tc =
     (Inr (c\<lparr>Campaign.abTesting := Some
             \<lparr>enabled = True,
              AbTesting.testType = TestConfig.testType tc,
              AbTesting.variants = storedVariants (TestConfig.variants tc),
              AbTesting.testSize = TestConfig.testSize tc,
              AbTesting.testDuration = TestConfig.testDuration tc,
              AbTesting.winnerCriteria = TestConfig.winnerCriteria tc,
              winnerSelected = None\<rparr>\<rparr>),
      repo(cid \<mapsto> c\<lparr>Campaign.abTesting := Some
             \<lparr>enabled = True,
              AbTesting.testType = TestConfig.testType tc,
              AbTesting.variants = storedVariants (TestConfig.variants tc),
              AbTesting.testSize = TestConfig.testSize tc,
              AbTesting.testDuration = TestConfig.testDuration tc,
              AbTesting.winnerCriteria = TestConfig.winnerCriteria tc,
              winnerSelected = None\<rparr>\<rparr>))"
  using assms by (simp add: createAbTest_def Let_def storedVariants_def)

lemma storedVariants_length: "length (storedVariants vs) = length vs"
  by (simp add: storedVariants_def)

lemma storedVariants_nth:
  assumes "i < length vs"
  shows "storedVariants vs ! i =
     \<lparr>AbTestVariant.variantId = ''variant-'' @ string_of_nat (i + 1),
      AbTestVariant.name = VariantInput.name (vs ! i),
      AbTestVariant.weight = VariantInput.weight (vs ! i),
      AbTestVariant.config = VariantInput.config (vs ! i),
      performance = None\<rparr>"
  using assms by (simp add: storedVariants_def nth_enumerate_eq)

text \<open>
  Whole-number weights.  Sums of whole numbers below \<open>2 ^ 53\<close> are exact in doubles, so
  the total of at most five weights of magnitude up to \<open>2 ^ 50\<close> is their sum, and the
  total misses 100 by more than the tolerance exactly when the sum is not 100.
\<close>

lemma foldl_whole_weights:
  assumes "\<forall>v \<in> set vs. VariantInput.weight v \<in> \<int> \<and> \<bar>VariantInput.weight v\<bar> \<le> 2 ^ 50"
    and "\<bar>m\<bar> + int (length vs) * 2 ^ 50 < 2 ^ 53"
  shows "foldl (\<lambda>sum v. js_add sum (VariantInput.weight v)) (of_int m) vs
           = of_int m + sum_list (map VariantInput.weight vs)"
  using assms
proof (induction vs arbitrary: m)
  case Nil
  then show ?case by simp
next
  case (Cons v vs)
  from Cons.prems(1) obtain n where n: "VariantInput.weight v = of_int n"
    by (auto elim: Ints_cases)
  from Cons.prems(1) have "\<bar>VariantInput.weight v\<bar> \<le> 2 ^ 50" by simp
  then have "\<bar>(of_int n :: rat)\<bar> \<le> of_int (2 ^ 50)" by (simp add: n)
  then have nb: "\<bar>n\<bar> \<le> 2 ^ 50"
    unfolding of_int_abs [symmetric] of_int_le_iff .
  from Cons.prems(2) have mb: "\<bar>m\<bar> + 2 ^ 50 + int (length vs) * 2 ^ 50 < 2 ^ 53"
    by (simp add: algebra_simps)
  from nb mb have "\<bar>m + n\<bar> < 2 ^ 53" by simp
  then have "fl (of_int (m + n)) = of_int (m + n)" by (rule fl_int)
  then have step: "js_add (of_int m) (of_int n) = of_int (m + n)"
    by (simp add: js_add_def)
  from nb mb have "\<bar>m + n\<bar> + int (length vs) * 2 ^ 50 < 2 ^ 53" by simp
  moreover from Cons.prems(1)
  have "\<forall>v \<in> set vs. VariantInput.weight v \<in> \<int> \<and> \<bar>VariantInput.weight v\<bar> \<le> 2 ^ 50"
    by simp
  ultimately have ih: "foldl (\<lambda>sum v. js_add sum (VariantInput.weight v)) (of_int (m + n)) vs
           = of_int (m + n) + sum_list (map VariantInput.weight vs)"
    by (intro Cons.IH)
  have "foldl (\<lambda>sum v. js_add sum (VariantInput.weight v)) (of_int m) (v # vs)
          = foldl (\<lambda>sum v. js_add sum (VariantInput.weight v))
              (js_add (of_int m) (of_int n)) vs"
    by (simp only: foldl_Cons n)
  also have "\<dots> = of_int (m + n) + sum_list (map VariantInput.weight vs)"
    by (simp only: step ih)
  also have "\<dots> = of_int m + sum_list (map VariantInput.weight (v # vs))"
    by (simp add: n)
  finally show ?case .
qed

lemma fl_hundredth: "fl (1 / 100) = 5764607523034235 / 2 ^ 59"
  using fl_near [of "1 / 100" 59 5764607523034235] by simp

lemma whole_weights_tolerance:
  assumes "length vs \<le> 5"
    and "\<forall>v \<in> set vs. VariantInput.weight v \<in> \<int> \<and> \<bar>VariantInput.weight v\<bar> \<le> 2 ^ 50"
  shows "totalWeight vs = sum_list (map VariantInput.weight vs)"
    and "fl (1 / 100) < \<bar>js_sub (totalWeight vs) 100\<bar>
           \<longleftrightarrow> sum_list (map VariantInput.weight vs) \<noteq> 100"
proof -
  from assms(1) have "\<bar>0::int\<bar> + int (length vs) * 2 ^ 50 < 2 ^ 53" by simp
  with assms(2)
  have "foldl (\<lambda>sum v. js_add sum (VariantInput.weight v)) (of_int 0) vs
           = of_int 0 + sum_list (map VariantInput.weight vs)"
    by (rule foldl_whole_weights)
  then show t: "totalWeight vs = sum_list (map VariantInput.weight vs)"
    by (simp add: totalWeight_def)
  have "\<exists>k. sum_list (map VariantInput.weight ws) = of_int k
            \<and> \<bar>k\<bar> \<le> int (length ws) * 2 ^ 50"
    if "\<forall>v \<in> set ws. VariantInput.weight v \<in> \<int> \<and> \<bar>VariantInput.weight v\<bar> \<le> 2 ^ 50"
    for ws
    using that
  proof (induction ws)
    case Nil
    show ?case by (rule exI [of _ 0]) simp
  next
    case (Cons w ws)
    from Cons.prems obtain n where n: "VariantInput.weight w = of_int n"
      by (auto elim: Ints_cases)
    from Cons.prems have "\<bar>VariantInput.weight w\<bar> \<le> 2 ^ 50" by simp
    then have "\<bar>(of_int n :: rat)\<bar> \<le> of_int (2 ^ 50)" by (simp add: n)
    then have nb: "\<bar>n\<bar> \<le> 2 ^ 50"
      unfolding of_int_abs [symmetric] of_int_le_iff .
    from Cons obtain k where k: "sum_list (map VariantInput.weight ws) = of_int k"
      and kb: "\<bar>k\<bar> \<le> int (length ws) * 2 ^ 50"
      by auto
    from nb kb have "\<bar>n + k\<bar> \<le> int (length (w # ws)) * 2 ^ 50"
      by (simp add: algebra_simps)
    with n k show ?case by (intro exI [of _ "n + k"]) simp
  qed
  with assms(2) obtain k where k: "sum_list (map VariantInput.weight vs) = of_int k"
    and kb: "\<bar>k\<bar> \<le> int (length vs) * 2 ^ 50"
    by blast
  from assms(1) have "int (length vs) * 2 ^ 50 \<le> 5 * 2 ^ 50" by simp
  with kb have "\<bar>k - 100\<bar> < 2 ^ 53" by simp
  then have "fl (of_int (k - 100)) = of_int (k - 100)" by (rule fl_int)
  then have d: "js_sub (totalWeight vs) 100 = of_int (k - 100)"
    by (simp add: js_sub_def t k)
  have "(5764607523034235 / 2 ^ 59 :: rat) < \<bar>of_int (k - 100)\<bar> \<longleftrightarrow> k \<noteq> 100"
  proof (cases "k = 100")
    case True
    then show ?thesis by simp
  next
    case False
    then have "1 \<le> \<bar>k - 100\<bar>" by simp
    then have "(of_int 1 :: rat) \<le> of_int \<bar>k - 100\<bar>"
      unfolding of_int_le_iff .
    then have "(1 :: rat) \<le> \<bar>of_int (k - 100)\<bar>" by simp
    moreover have "(5764607523034235 / 2 ^ 59 :: rat) < 1" by simp
    ultimately have "(5764607523034235 / 2 ^ 59 :: rat) < \<bar>of_int (k - 100)\<bar>"
      by (rule less_le_trans [rotated])
    with False show ?thesis by simp
  qed
  then show "fl (1 / 100) < \<bar>js_sub (totalWeight vs) 100\<bar>
           \<longleftrightarrow> sum_list (map VariantInput.weight vs) \<noteq> 100"
    by (simp only: d fl_hundredth k) simp
qed

text \<open>
  Claim C8, as amended.  For a stored campaign, \<open>createAbTest\<close> throws a
  \<open>BadRequestException\<close> and leaves the table unchanged whenever the campaign is not in
  \<open>draft\<close> status, there are fewer than 2 or more than 5 variants, or the total of the
  weights, added in the given order in the arithmetic of doubles, differs from 100 by more
  than the double \<open>0.01\<close>, the difference being rounded too.  Otherwise it stores and
  returns the campaign with an enabled experiment that has no winner selected and holds,
  in the given order, one variant per given variant, with the given name, weight and
  configuration, the id \<open>variant-\<close> followed by its position counted from 1, and no
  performance counters yet.  For at most five whole-number weights of magnitude up to
  \<open>2 ^ 50\<close> the total is off by more than the tolerance exactly when the weights do not
  sum to 100.
\<close>

theorem createAbTest_validation:
  assumes "repo cid = Some c"
  shows
    "(Campaign.status c \<noteq> CampaignStatus.DRAFT
         \<or> length (TestConfig.variants tc) < 2
         \<or> 5 < length (TestConfig.variants tc)
         \<or> fl (1 / 100) < \<bar>js_sub (totalWeight (TestConfig.variants tc)) 100\<bar> \<longrightarrow>
        (\<exists>msg. createAbTest repo cid tc = (Inl (BadRequestException msg), repo)))
     \<and> (Campaign.status c = CampaignStatus.DRAFT
         \<and> 2 \<le> length (TestConfig.variants tc) \<and> length (TestConfig.variants tc) \<le> 5
         \<and> \<bar>js_sub (totalWeight (TestConfig.variants tc)) 100\<bar> \<le> fl (1 / 100) \<longrightarrow>
        createAbTest repo cid tc =
          (Inr (c\<lparr>Campaign.abTesting := Some
                  \<lparr>enabled = True,
                   AbTesting.testType = TestConfig.testType tc,
                   AbTesting.variants = storedVariants (TestConfig.variants tc),
                   AbTesting.testSize = TestConfig.testSize tc,
                   AbTesting.testDuration = TestConfig.testDuration tc,
                   AbTesting.winnerCriteria = TestConfig.winnerCriteria tc,
                   winnerSelected = None\<rparr>\<rparr>),
           repo(cid \<mapsto> c\<lparr>Campaign.abTesting := Some
                  \<lparr>enabled = True,
                   AbTesting.testType = TestConfig.testType tc,
                   AbTesting.variants = storedVariants (TestConfig.variants tc),
                   AbTesting.testSize = TestConfig.testSize tc,
                   AbTesting.testDuration = TestConfig.testDuration tc,
                   AbTesting.winnerCriteria = TestConfig.winnerCriteria tc,
                   winnerSelected = None\<rparr>\<rparr>)))
     \<and> (length (TestConfig.variants tc) \<le> 5
         \<and> (\<forall>v \<in> set (TestConfig.variants tc).
               VariantInput.weight v \<in> \<int> \<and> \<bar>VariantInput.weight v\<bar> \<le> 2 ^ 50) \<longrightarrow>
        (fl (1 / 100) < \<bar>js_sub (totalWeight (TestConfig.variants tc)) 100\<bar>
           \<longleftrightarrow> sum_list (map VariantInput.weight (TestConfig.variants tc)) \<noteq> 100))
     \<and> length (storedVariants (TestConfig.variants tc)) = length (TestConfig.variants tc)
     \<and> (i < length (TestConfig.variants tc) \<longrightarrow>
        storedVariants (TestConfig.variants tc) ! i =
          \<lparr>AbTestVariant.variantId = ''variant-'' @ string_of_nat (i + 1),
           AbTestVariant.name = VariantInput.name (TestConfig.variants tc ! i),
           AbTestVariant.weight = VariantInput.weight (TestConfig.variants tc ! i),
           AbTestVariant.config = VariantInput.config (TestConfig.variants tc ! i),
           performance = None\<rparr>)"
proof (intro conjI impI)
  assume "Campaign.status c \<noteq> CampaignStatus.DRAFT
         \<or> length (TestConfig.variants tc) < 2
         \<or> 5 < length (TestConfig.variants tc)
         \<or> fl (1 / 100) < \<bar>js_sub (totalWeight (TestConfig.variants tc)) 100\<bar>"
  with assms show "\<exists>msg. createAbTest repo cid tc = (Inl (BadRequestException msg), repo)"
    by (rule createAbTest_rejected)
next
  assume h: "Campaign.status c = CampaignStatus.DRAFT
         \<and> 2 \<le> length (TestConfig.variants tc) \<and> length (TestConfig.variants tc) \<le> 5
         \<and> \<bar>js_sub (totalWeight (TestConfig.variants tc)) 100\<bar> \<le> fl (1 / 100)"
  show "createAbTest repo cid tc =
          (Inr (c\<lparr>Campaign.abTesting := Some
                  \<lparr>enabled = True,
                   AbTesting.testType = TestConfig.testType tc,
                   AbTesting.variants = storedVariants (TestConfig.variants tc),
                   AbTesting.testSize = TestConfig.testSize tc,
                   AbTesting.testDuration = TestConfig.testDuration tc,
                   AbTesting.winnerCriteria = TestConfig.winnerCriteria tc,
                   winnerSelected = None\<rparr>\<rparr>),
           repo(cid \<mapsto> c\<lparr>Campaign.abTesting := Some
                  \<lparr>enabled = True,
                   AbTesting.testType = TestConfig.testType tc,
                   AbTesting.variants = storedVariants (TestConfig.variants tc),
                   AbTesting.testSize = TestConfig.testSize tc,
                   AbTesting.testDuration = TestConfig.testDuration tc,
                   AbTesting.winnerCriteria = TestConfig.winnerCriteria tc,
                   winnerSelected = None\<rparr>\<rparr>))"
    using assms h by (intro createAbTest_accepted) simp_all
next
  assume "length (TestConfig.variants tc) \<le> 5
         \<and> (\<forall>v \<in> set (TestConfig.variants tc).
               VariantInput.weight v \<in> \<int> \<and> \<bar>VariantInput.weight v\<bar> \<le> 2 ^ 50)"
  then show "fl (1 / 100) < \<bar>js_sub (totalWeight (TestConfig.variants tc)) 100\<bar>
           \<longleftrightarrow> sum_list (map VariantInput.weight (TestConfig.variants tc)) \<noteq> 100"
    by (intro whole_weights_tolerance(2)) simp_all
next
  show "length (storedVariants (TestConfig.variants tc)) = length (TestConfig.variants tc)"
    by (rule storedVariants_length)
next
  assume "i < length (TestConfig.variants tc)"
  then show "storedVariants (TestConfig.variants tc) ! i =
          \<lparr>AbTestVariant.variantId = ''variant-'' @ string_of_nat (i + 1),
           AbTestVariant.name = VariantInput.name (TestConfig.variants tc ! i),
           AbTestVariant.weight = VariantInput.weight (TestConfig.variants tc ! i),
           AbTestVariant.config = VariantInput.config (TestConfig.variants tc ! i),
           performance = None\<rparr>"
    by (rule storedVariants_nth)
qed

lemma string_of_nat_sample:
  "string_of_nat 1 = ''1''" "string_of_nat 2 = ''2''"
  "string_of_nat (Suc 0) = ''1''" "string_of_nat (Suc (Suc 0)) = ''2''"
  by (simp_all add: string_of_nat.simps)

text \<open>
  Weights 60 and 40 on a draft campaign are stored; weights 50 and 40 are refused, and so
  is any experiment on a scheduled campaign.
\<close>

theorem createAbTest_validation_witness:
  "map_sum id (map_option (map AbTestVariant.variantId \<circ> AbTesting.variants) \<circ> Campaign.abTesting)
     (fst (createAbTest (sampleCampaigns CampaignStatus.DRAFT None) ''c1'' (sampleTestConfig 60)))
     = Inr (Some [''variant-1'', ''variant-2''])
   \<and> map_sum id (map_option (map AbTestVariant.weight \<circ> AbTesting.variants) \<circ> Campaign.abTesting)
     (fst (createAbTest (sampleCampaigns CampaignStatus.DRAFT None) ''c1'' (sampleTestConfig 60)))
     = Inr (Some [60, 40])
   \<and> map_sum id (map_option winnerSelected \<circ> Campaign.abTesting)
     (fst (createAbTest (sampleCampaigns CampaignStatus.DRAFT None) ''c1'' (sampleTestConfig 60)))
     = Inr (Some None)
   \<and> map_option (map_option enabled \<circ> Campaign.abTesting)
       (snd (createAbTest (sampleCampaigns CampaignStatus.DRAFT None) ''c1''
               (sampleTestConfig 60)) ''c1'')
     = Some (Some True)
   \<and> isl (fst (createAbTest (sampleCampaigns CampaignStatus.DRAFT None) ''c1''
                 (sampleTestConfig 50)))
   \<and> snd (createAbTest (sampleCampaigns CampaignStatus.DRAFT None) ''c1'' (sampleTestConfig 50))
     = sampleCampaigns CampaignStatus.DRAFT None
   \<and> isl (fst (createAbTest (sampleCampaigns CampaignStatus.SCHEDULED None) ''c1''
                 (sampleTestConfig 60)))"
proof -
  have r: "sampleCampaigns st None ''c1'' = Some (sampleCampaign st None)" for st
    by (simp add: sampleCampaigns_def)
  have st: "Campaign.status (sampleCampaign st None) = st" for st
    by (simp add: sampleCampaign_def)
  have tc: "TestConfig.variants (sampleTestConfig wA) =
              [\<lparr>VariantInput.name = ''A'', VariantInput.weight = wA,
                VariantInput.config = sampleVariantConfig ''A''\<rparr>,
               \<lparr>VariantInput.name = ''B'', VariantInput.weight = 40,
                VariantInput.config = sampleVariantConfig ''B''\<rparr>]" for wA
    by (simp add: sampleTestConfig_def)
  note a0 = createAbTest_validation
    [where repo = "sampleCampaigns CampaignStatus.DRAFT None" and cid = "''c1''"
       and c = "sampleCampaign CampaignStatus.DRAFT None" and tc = "sampleTestConfig 60"
       and i = 0, OF r]
  note a1 = createAbTest_validation
    [where repo = "sampleCampaigns CampaignStatus.DRAFT None" and cid = "''c1''"
       and c = "sampleCampaign CampaignStatus.DRAFT None" and tc = "sampleTestConfig 60"
       and i = 1, OF r]
  note b = createAbTest_validation
    [where repo = "sampleCampaigns CampaignStatus.DRAFT None" and cid = "''c1''"
       and c = "sampleCampaign CampaignStatus.DRAFT None" and tc = "sampleTestConfig 50"
       and i = 0, OF r]
  note d = createAbTest_validation
    [where repo = "sampleCampaigns CampaignStatus.SCHEDULED None" and cid = "''c1''"
       and c = "sampleCampaign CampaignStatus.SCHEDULED None" and tc = "sampleTestConfig 60"
       and i = 0, OF r]
  have t60: "\<bar>js_sub (totalWeight (TestConfig.variants (sampleTestConfig 60))) 100\<bar>
               \<le> fl (1 / 100)"
    using a0 [THEN conjunct2, THEN conjunct2, THEN conjunct1] by (simp add: tc)
  have t50: "fl (1 / 100) < \<bar>js_sub (totalWeight (TestConfig.variants (sampleTestConfig 50))) 100\<bar>"
    using b [THEN conjunct2, THEN conjunct2, THEN conjunct1] by (simp add: tc)
  have len: "length (storedVariants (TestConfig.variants (sampleTestConfig 60))) = 2"
    using a0 [THEN conjunct2, THEN conjunct2, THEN conjunct2, THEN conjunct1]
    by (simp add: tc)
  have n0: "storedVariants (TestConfig.variants (sampleTestConfig 60)) ! 0 =
          \<lparr>AbTestVariant.variantId = ''variant-1'', AbTestVariant.name = ''A'',
           AbTestVariant.weight = 60, AbTestVariant.config = sampleVariantConfig ''A'',
           performance = None\<rparr>"
    using a0 [THEN conjunct2, THEN conjunct2, THEN conjunct2, THEN conjunct2]
    by (simp add: tc string_of_nat_sample)
  have n1: "storedVariants (TestConfig.variants (sampleTestConfig 60)) ! 1 =
          \<lparr>AbTestVariant.variantId = ''variant-2'', AbTestVariant.name = ''B'',
           AbTestVariant.weight = 40, AbTestVariant.config = sampleVariantConfig ''B'',
           performance = None\<rparr>"
    using a1 [THEN conjunct2, THEN conjunct2, THEN conjunct2, THEN conjunct2]
    by (simp add: tc string_of_nat_sample)
  have sv: "storedVariants (TestConfig.variants (sampleTestConfig 60)) =
          [\<lparr>AbTestVariant.variantId = ''variant-1'', AbTestVariant.name = ''A'',
            AbTestVariant.weight = 60, AbTestVariant.config = sampleVariantConfig ''A'',
            performance = None\<rparr>,
           \<lparr>AbTestVariant.variantId = ''variant-2'', AbTestVariant.name = ''B'',
            AbTestVariant.weight = 40, AbTestVariant.config = sampleVariantConfig ''B'',
            performance = None\<rparr>]"
    using len n0 n1 by (intro nth_equalityI) (auto simp: less_Suc_eq numeral_2_eq_2)
  have w1: "createAbTest (sampleCampaigns CampaignStatus.DRAFT None) ''c1'' (sampleTestConfig 60)
     = (Inr ((sampleCampaign CampaignStatus.DRAFT None)\<lparr>Campaign.abTesting := Some
                  \<lparr>enabled = True,
                   AbTesting.testType = TestConfig.testType (sampleTestConfig 60),
                   AbTesting.variants = storedVariants (TestConfig.variants (sampleTestConfig 60)),
                   AbTesting.testSize = TestConfig.testSize (sampleTestConfig 60),
                   AbTesting.testDuration = TestConfig.testDuration (sampleTestConfig 60),
                   AbTesting.winnerCriteria = TestConfig.winnerCriteria (sampleTestConfig 60),
                   winnerSelected = None\<rparr>\<rparr>),
           (sampleCampaigns CampaignStatus.DRAFT None)
           (''c1'' \<mapsto> (sampleCampaign CampaignStatus.DRAFT None)\<lparr>Campaign.abTesting := Some
                  \<lparr>enabled = True,
                   AbTesting.testType = TestConfig.testType (sampleTestConfig 60),
                   AbTesting.variants = storedVariants (TestConfig.variants (sampleTestConfig 60)),
                   AbTesting.testSize = TestConfig.testSize (sampleTestConfig 60),
                   AbTesting.testDuration = TestConfig.testDuration (sampleTestConfig 60),
                   AbTesting.winnerCriteria = TestConfig.winnerCriteria (sampleTestConfig 60),
                   winnerSelected = None\<rparr>\<rparr>))"
    using a0 [THEN conjunct2, THEN conjunct1] t60 by (simp add: st tc)
  have w2: "isl (fst (createAbTest (sampleCampaigns CampaignStatus.DRAFT None) ''c1''
                 (sampleTestConfig 50)))
     \<and> snd (createAbTest (sampleCampaigns CampaignStatus.DRAFT None) ''c1'' (sampleTestConfig 50))
       = sampleCampaigns CampaignStatus.DRAFT None"
    using b [THEN conjunct1] t50 by auto
  have w3: "isl (fst (createAbTest (sampleCampaigns CampaignStatus.SCHEDULED None) ''c1''
                 (sampleTestConfig 60)))"
    using d [THEN conjunct1] by (auto simp: st)
  from w2 w3 show ?thesis by (simp add: w1 sv)
qed

text \<open>
  Claim C8 as stated fails.  The weights 10.01 and 90, as doubles, differ from 100 in sum
  by less than 0.01, and by less than the double \<open>0.01\<close>; yet their total in doubles is
  off by more, and \<open>createAbTest\<close> refuses them.
\<close>

lemma decimal_weights:
  "fl (1001 / 100) = 5635129033747333 / 2 ^ 49"
  "fl (1 / 100) < \<bar>js_sub (totalWeight (TestConfig.variants decimalTestConfig)) 100\<bar>"
proof -
  define w :: rat where "w = 5635129033747333 / 2 ^ 49"
  define total :: rat where "total = 7037578105208177 / 2 ^ 46"
  define difference :: rat where "difference = 5764607523037184 / 2 ^ 59"
  have w: "fl (1001 / 100) = w"
    using fl_near [of "1001 / 100" 49 5635129033747333] unfolding w_def by simp
  then show "fl (1001 / 100) = 5635129033747333 / 2 ^ 49"
    by (simp only: w_def)
  have e: "fl w = w"
    using fl_near [of w 49 5635129033747333] unfolding w_def by simp
  have s: "fl (w + 90) = total"
    using fl_near [of "w + 90" 46 7037578105208177] unfolding w_def total_def by simp
  have d: "fl (total - 100) = difference"
    using fl_near [of "total - 100" 59 5764607523037184] unfolding total_def difference_def
    by simp
  have "totalWeight (TestConfig.variants decimalTestConfig) = fl (fl (0 + fl (1001 / 100)) + 90)"
    by (simp add: totalWeight_def decimalTestConfig_def js_add_def)
  also have "\<dots> = total" by (simp only: w add_0 e s)
  finally have "js_sub (totalWeight (TestConfig.variants decimalTestConfig)) 100 = difference"
    by (simp only: js_sub_def d)
  moreover have "fl (1 / 100) < \<bar>difference\<bar>"
    unfolding difference_def by (simp add: fl_hundredth)
  ultimately show
    "fl (1 / 100) < \<bar>js_sub (totalWeight (TestConfig.variants decimalTestConfig)) 100\<bar>"
    by (simp only:)
qed

theorem createAbTest_counterexample:
  "createAbTest (sampleCampaigns CampaignStatus.DRAFT None) ''c1'' decimalTestConfig
     = (Inl (BadRequestException ''Variant weights must sum to 100%''),
        sampleCampaigns CampaignStatus.DRAFT None)
   \<and> map VariantInput.weight (TestConfig.variants decimalTestConfig) = [fl (1001 / 100), 90]
   \<and> \<bar>fl (1001 / 100) + 90 - 100\<bar> \<le> 1 / 100
   \<and> \<bar>fl (1001 / 100) + 90 - 100\<bar> \<le> fl (1 / 100)"
proof -
  have "createAbTest (sampleCampaigns CampaignStatus.DRAFT None) ''c1'' decimalTestConfig
     = (Inl (BadRequestException ''Variant weights must sum to 100%''),
        sampleCampaigns CampaignStatus.DRAFT None)"
    using decimal_weights(2)
    by (simp add: createAbTest_def sampleCampaigns_def sampleCampaign_def Let_def)
       (simp add: decimalTestConfig_def)
  moreover have "map VariantInput.weight (TestConfig.variants decimalTestConfig)
                   = [fl (1001 / 100), 90]"
    by (simp add: decimalTestConfig_def)
  moreover have "\<bar>fl (1001 / 100) + 90 - 100\<bar> \<le> 1 / 100"
    by (simp add: decimal_weights(1))
  moreover have "\<bar>fl (1001 / 100) + 90 - 100\<bar> \<le> fl (1 / 100)"
    by (simp add: decimal_weights(1) fl_hundredth)
  ultimately show ?thesis by simp
qed

text \<open>
  The check on weights that may be \<open>NaN\<close>.  On numbers it is the check of
  \<open>createAbTest\<close>.  A \<open>NaN\<close> among the weights passes it, whatever the other weights
  are: here with a second weight of 50.
\<close>

lemma foldl_addNumber:
  "foldl addNumber (Some a) (map (Some \<circ> VariantInput.weight) vs)
     = Some (foldl (\<lambda>sum v. js_add sum (VariantInput.weight v)) a vs)"
  by (induction vs arbitrary: a) simp_all

lemma weightsRefused_numbers:
  "weightsRefused (map (Some \<circ> VariantInput.weight) vs)
     \<longleftrightarrow> fl (1 / 100) < \<bar>js_sub (totalWeight vs) 100\<bar>"
  by (simp add: weightsRefused_def foldl_addNumber totalWeight_def)

lemma weightsRefused_NaN: "\<not> weightsRefused [None, Some 50]"
  by (simp add: weightsRefused_def)


section \<open>Properties of the scoring\<close>

lemma floor_half: "\<lfloor>(1 / 2 :: rat)\<rfloor> = 0"
  by (simp add: floor_eq_iff)

lemma js_zero:
  "js_mul 0 c = 0" "js_div 0 c = 0" "js_add 0 0 = 0" "js_sub 0 0 = 0" "Math_round 0 = 0"
  by (simp_all add: js_mul_def js_div_def js_add_def js_sub_def fl_zero Math_round_def floor_half)

lemma twoDecimals_zero: "twoDecimals 0 = 0"
  by (simp add: twoDecimals_def js_zero)

lemma rate0: "percentRate 0 n = 0"
  by (simp add: percentRate_def js_zero twoDecimals_zero)

lemma rate_nothing_sent: "nSent \<le> 0 \<Longrightarrow> percentRate n nSent = 0"
  by (simp add: percentRate_def)

text \<open>The rates \<open>calculateVariantMetrics\<close> returns are the rates of the claim.\<close>

lemma metrics_rates:
  "openRate (calculateVariantMetrics p) = percentRate (opened p) (sent p)"
  "clickRate (calculateVariantMetrics p) = percentRate (clicked p) (sent p)"
  "replyRate (calculateVariantMetrics p) = percentRate (replied p) (sent p)"
  "unsubscribeRate (calculateVariantMetrics p) = percentRate (unsubscribed p) (sent p)"
  "bounceRate (calculateVariantMetrics p) = percentRate (bounced p) (sent p)"
  "overallScore (calculateVariantMetrics p) = 0"
  by (simp_all add: calculateVariantMetrics_def percentRate_def twoDecimals_def Let_def js_zero)

lemma score_open_rate:
  "calculateOverallScore m ''open_rate'' =
     max 0 (twoDecimals
       (js_sub
          (js_sub
             (js_add
                (js_add (js_mul (openRate m) (fl (4 / 10))) (js_mul (clickRate m) (fl (3 / 10))))
                (js_mul (replyRate m) (fl (3 / 10))))
             (js_mul (unsubscribeRate m) (fl (5 / 10))))
          (js_mul (bounceRate m) (fl (3 / 10)))))"
  by (simp add: calculateOverallScore_def twoDecimals_def Let_def)

lemma score_nonnegative: "0 \<le> calculateOverallScore m criteria"
  by (simp add: calculateOverallScore_def Let_def)

lemma score_nothing_sent:
  "sent p \<le> 0 \<Longrightarrow> calculateOverallScore (calculateVariantMetrics p) ''open_rate'' = 0"
  by (simp add: score_open_rate metrics_rates rate_nothing_sent js_zero twoDecimals_zero)

text \<open>
  The scenario of the spec, and a variant with 3 sent and 1 opened, evaluated step by
  step: each step names the double an operation gives.
\<close>

lemma rateA: "percentRate 40 100 = 40"
proof -
  define x1 :: rat where "x1 = 3602879701896397 / 2 ^ 53"
  have f1: "js_div 40 100 = x1"
    unfolding js_div_def
    using fl_near [of "40 / 100" 54 7205759403792794] unfolding x1_def by simp
  have f2: "js_mul x1 100 = 40"
    unfolding js_mul_def
    using fl_near [of "x1 * 100" 47 5629499534213120] unfolding x1_def by simp
  have f3: "js_mul 40 100 = 4000"
    unfolding js_mul_def
    using fl_near [of "40 * 100" 41 8796093022208000] unfolding x1_def by simp
  have f4: "Math_round 4000 = 4000"
    by (simp add: Math_round_def floor_eq_iff)
  have f5: "js_div 4000 100 = 40"
    unfolding js_div_def
    using fl_near [of "4000 / 100" 47 5629499534213120] unfolding x1_def by simp
  show ?thesis
    by (simp add: percentRate_def twoDecimals_def f1 f2 f3 f4 f5)
qed

lemma scoreA:
  "calculateOverallScore (calculateVariantMetrics (samplePerformance 100 40)) ''open_rate'' = 16"
proof -
  define y1 :: rat where "y1 = 3602879701896397 / 2 ^ 53"
  have f1: "fl (2 / 5) = y1"
    using fl_near [of "2 / 5" 54 7205759403792794] unfolding y1_def by simp
  define y2 :: rat where "y2 = 5404319552844595 / 2 ^ 54"
  have f2: "fl (3 / 10) = y2"
    using fl_near [of "3 / 10" 54 5404319552844595] unfolding y1_def y2_def by simp
  have f3: "fl (1 / 2) = 1 / 2"
    using fl_near [of "1 / 2" 53 4503599627370496] by simp
  have f4: "js_mul 40 y1 = 16"
    unfolding js_mul_def
    using fl_near [of "40 * y1" 48 4503599627370496] unfolding y1_def y2_def by simp
  have f5: "js_mul 0 y2 = 0"
    by (simp add: js_mul_def fl_zero)
  have f6: "js_add 16 0 = 16"
    unfolding js_add_def
    using fl_near [of "16 + 0" 48 4503599627370496] unfolding y1_def y2_def by simp
  have f7: "js_mul 0 (1 / 2) = 0"
    by (simp add: js_mul_def fl_zero)
  have f8: "js_sub 16 0 = 16"
    unfolding js_sub_def
    using fl_near [of "16 - 0" 48 4503599627370496] unfolding y1_def y2_def by simp
  have f9: "js_mul 16 100 = 1600"
    unfolding js_mul_def
    using fl_near [of "16 * 100" 42 7036874417766400] unfolding y1_def y2_def by simp
  have f10: "Math_round 1600 = 1600"
    by (simp add: Math_round_def floor_eq_iff)
  have f11: "js_div 1600 100 = 16"
    unfolding js_div_def
    using fl_near [of "1600 / 100" 48 4503599627370496] unfolding y1_def y2_def by simp
  show ?thesis
    by (simp add: score_open_rate metrics_rates samplePerformance_def rateA rate0 twoDecimals_def
                  f1 f2 f3 f4 f5 f6 f7 f8 f9 f10 f11)
qed

lemma rateB: "percentRate 48 80 = 60"
proof -
  define x1 :: rat where "x1 = 5404319552844595 / 2 ^ 53"
  have f1: "js_div 48 80 = x1"
    unfolding js_div_def
    using fl_near [of "48 / 80" 53 5404319552844595] unfolding x1_def by simp
  have f2: "js_mul x1 100 = 60"
    unfolding js_mul_def
    using fl_near [of "x1 * 100" 47 8444249301319680] unfolding x1_def by simp
  have f3: "js_mul 60 100 = 6000"
    unfolding js_mul_def
    using fl_near [of "60 * 100" 40 6597069766656000] unfolding x1_def by simp
  have f4: "Math_round 6000 = 6000"
    by (simp add: Math_round_def floor_eq_iff)
  have f5: "js_div 6000 100 = 60"
    unfolding js_div_def
    using fl_near [of "6000 / 100" 47 8444249301319680] unfolding x1_def by simp
  show ?thesis
    by (simp add: percentRate_def twoDecimals_def f1 f2 f3 f4 f5)
qed

lemma scoreB:
  "calculateOverallScore (calculateVariantMetrics (samplePerformance 80 48)) ''open_rate'' = 24"
proof -
  define y1 :: rat where "y1 = 3602879701896397 / 2 ^ 53"
  have f1: "fl (2 / 5) = y1"
    using fl_near [of "2 / 5" 54 7205759403792794] unfolding y1_def by simp
  define y2 :: rat where "y2 = 5404319552844595 / 2 ^ 54"
  have f2: "fl (3 / 10) = y2"
    using fl_near [of "3 / 10" 54 5404319552844595] unfolding y1_def y2_def by simp
  have f3: "fl (1 / 2) = 1 / 2"
    using fl_near [of "1 / 2" 53 4503599627370496] by simp
  have f4: "js_mul 60 y1 = 24"
    unfolding js_mul_def
    using fl_near [of "60 * y1" 48 6755399441055744] unfolding y1_def y2_def by simp
  have f5: "js_mul 0 y2 = 0"
    by (simp add: js_mul_def fl_zero)
  have f6: "js_add 24 0 = 24"
    unfolding js_add_def
    using fl_near [of "24 + 0" 48 6755399441055744] unfolding y1_def y2_def by simp
  have f7: "js_mul 0 (1 / 2) = 0"
    by (simp add: js_mul_def fl_zero)
  have f8: "js_sub 24 0 = 24"
    unfolding js_sub_def
    using fl_near [of "24 - 0" 48 6755399441055744] unfolding y1_def y2_def by simp
  have f9: "js_mul 24 100 = 2400"
    unfolding js_mul_def
    using fl_near [of "24 * 100" 41 5277655813324800] unfolding y1_def y2_def by simp
  have f10: "Math_round 2400 = 2400"
    by (simp add: Math_round_def floor_eq_iff)
  have f11: "js_div 2400 100 = 24"
    unfolding js_div_def
    using fl_near [of "2400 / 100" 48 6755399441055744] unfolding y1_def y2_def by simp
  show ?thesis
    by (simp add: score_open_rate metrics_rates samplePerformance_def rateB rate0 twoDecimals_def
                  f1 f2 f3 f4 f5 f6 f7 f8 f9 f10 f11)
qed

lemma rateC: "percentRate 1 3 = fl (3333 / 100)"
proof -
  define x1 :: rat where "x1 = 6004799503160661 / 2 ^ 54"
  have f1: "js_div 1 3 = x1"
    unfolding js_div_def
    using fl_near [of "1 / 3" 54 6004799503160661] unfolding x1_def by simp
  define x2 :: rat where "x2 = 2345624805922133 / 2 ^ 46"
  have f2: "js_mul x1 100 = x2"
    unfolding js_mul_def
    using fl_near [of "x1 * 100" 47 4691249611844266] unfolding x1_def x2_def by simp
  define x3 :: rat where "x3 = 3665038759253333 / 2 ^ 40"
  have f3: "js_mul x2 100 = x3"
    unfolding js_mul_def
    using fl_near [of "x2 * 100" 41 7330077518506666] unfolding x1_def x2_def x3_def by simp
  have f4: "Math_round x3 = 3333"
    unfolding x1_def x2_def x3_def by (simp add: Math_round_def floor_eq_iff)
  define x4 :: rat where "x4 = 2345390243441541 / 2 ^ 46"
  have f5: "js_div 3333 100 = x4"
    unfolding js_div_def
    using fl_near [of "3333 / 100" 47 4690780486883082]
      unfolding x1_def x2_def x3_def x4_def by simp
  have f6: "fl (3333 / 100) = x4"
    using fl_near [of "3333 / 100" 47 4690780486883082]
      unfolding x1_def x2_def x3_def x4_def by simp
  show ?thesis
    by (simp add: percentRate_def twoDecimals_def f1 f2 f3 f4 f5 f6)
qed

lemma scoreC:
  "calculateOverallScore (calculateVariantMetrics (samplePerformance 3 1))
     ''open_rate'' = fl (1333 / 100)"
proof -
  define y1 :: rat where "y1 = 2345390243441541 / 2 ^ 46"
  have f1: "fl (3333 / 100) = y1"
    using fl_near [of "3333 / 100" 47 4690780486883082] unfolding y1_def by simp
  define y2 :: rat where "y2 = 3602879701896397 / 2 ^ 53"
  have f2: "fl (2 / 5) = y2"
    using fl_near [of "2 / 5" 54 7205759403792794] unfolding y1_def y2_def by simp
  define y3 :: rat where "y3 = 5404319552844595 / 2 ^ 54"
  have f3: "fl (3 / 10) = y3"
    using fl_near [of "3 / 10" 54 5404319552844595] unfolding y1_def y2_def y3_def by simp
  have f4: "fl (1 / 2) = 1 / 2"
    using fl_near [of "1 / 2" 53 4503599627370496] by simp
  define y4 :: rat where "y4 = 1876312194753233 / 2 ^ 47"
  have f5: "js_mul y1 y2 = y4"
    unfolding js_mul_def
    using fl_near [of "y1 * y2" 49 7505248779012932] unfolding y1_def y2_def y3_def y4_def by simp
  have f6: "js_mul 0 y3 = 0"
    by (simp add: js_mul_def fl_zero)
  have f7: "js_add y4 0 = y4"
    unfolding js_add_def
    using fl_near [of "y4 + 0" 49 7505248779012932] unfolding y1_def y2_def y3_def y4_def by simp
  have f8: "js_mul 0 (1 / 2) = 0"
    by (simp add: js_mul_def fl_zero)
  have f9: "js_sub y4 0 = y4"
    unfolding js_sub_def
    using fl_near [of "y4 - 0" 49 7505248779012932] unfolding y1_def y2_def y3_def y4_def by simp
  define y5 :: rat where "y5 = 5863475608603853 / 2 ^ 42"
  have f10: "js_mul y4 100 = y5"
    unfolding js_mul_def
    using fl_near [of "y4 * 100" 42 5863475608603853]
      unfolding y1_def y2_def y3_def y4_def y5_def by simp
  have f11: "Math_round y5 = 1333"
    unfolding y1_def y2_def y3_def y4_def y5_def by (simp add: Math_round_def floor_eq_iff)
  define y6 :: rat where "y6 = 7504122879106089 / 2 ^ 49"
  have f12: "js_div 1333 100 = y6"
    unfolding js_div_def
    using fl_near [of "1333 / 100" 49 7504122879106089]
      unfolding y1_def y2_def y3_def y4_def y5_def y6_def by simp
  have f13: "fl (1333 / 100) = y6"
    using fl_near [of "1333 / 100" 49 7504122879106089]
      unfolding y1_def y2_def y3_def y4_def y5_def y6_def by simp
  have pos: "0 \<le> y6" unfolding y6_def by simp
  show ?thesis
    by (simp add: score_open_rate metrics_rates samplePerformance_def rateC rate0 twoDecimals_def
                  f1 f2 f3 f4 f5 f6 f7 f8 f9 f10 f11 f12 f13 max_absorb2 [OF pos])
qed

text \<open>
  Claim C9, as amended.  Under the \<open>open_rate\<close> criterion the score of a variant is
  \<open>open * 0.4 + click * 0.3 + reply * 0.3 - unsubscribe * 0.5 - bounce * 0.3\<close>, evaluated
  from the left in the arithmetic of doubles, then rounded to two decimals by
  \<open>Math.round(x * 100) / 100\<close> and floored at 0, where each rate is \<open>count / sent * 100\<close>
  in doubles, rounded to two decimals in the same way, and 0 when nothing was sent.  The
  score is never negative, and it is 0 when nothing was sent.  For A (sent 100, opened
  40) the score is 16 and for B (sent 80, opened 48) it is 24, so B's score exceeds A's.
\<close>

theorem calculateOverallScore_open_rate:
  "calculateOverallScore (calculateVariantMetrics p) ''open_rate'' =
     max 0 (twoDecimals
       (js_sub
          (js_sub
             (js_add
                (js_add (js_mul (percentRate (opened p) (sent p)) (fl (4 / 10)))
                        (js_mul (percentRate (clicked p) (sent p)) (fl (3 / 10))))
                (js_mul (percentRate (replied p) (sent p)) (fl (3 / 10))))
             (js_mul (percentRate (unsubscribed p) (sent p)) (fl (5 / 10))))
          (js_mul (percentRate (bounced p) (sent p)) (fl (3 / 10)))))
   \<and> 0 \<le> calculateOverallScore (calculateVariantMetrics p) ''open_rate''
   \<and> (sent p \<le> 0 \<longrightarrow> calculateOverallScore (calculateVariantMetrics p) ''open_rate'' = 0)
   \<and> calculateOverallScore (calculateVariantMetrics (samplePerformance 100 40)) ''open_rate''
       = 16
   \<and> calculateOverallScore (calculateVariantMetrics (samplePerformance 80 48)) ''open_rate''
       = 24
   \<and> calculateOverallScore (calculateVariantMetrics (samplePerformance 100 40)) ''open_rate''
       < calculateOverallScore (calculateVariantMetrics (samplePerformance 80 48)) ''open_rate''"
proof (intro conjI impI)
  show "calculateOverallScore (calculateVariantMetrics p) ''open_rate'' =
     max 0 (twoDecimals
       (js_sub
          (js_sub
             (js_add
                (js_add (js_mul (percentRate (opened p) (sent p)) (fl (4 / 10)))
                        (js_mul (percentRate (clicked p) (sent p)) (fl (3 / 10))))
                (js_mul (percentRate (replied p) (sent p)) (fl (3 / 10))))
             (js_mul (percentRate (unsubscribed p) (sent p)) (fl (5 / 10))))
          (js_mul (percentRate (bounced p) (sent p)) (fl (3 / 10)))))"
    by (simp only: score_open_rate metrics_rates)
next
  show "0 \<le> calculateOverallScore (calculateVariantMetrics p) ''open_rate''"
    by (rule score_nonnegative)
next
  assume "sent p \<le> 0"
  then show "calculateOverallScore (calculateVariantMetrics p) ''open_rate'' = 0"
    by (rule score_nothing_sent)
next
  show "calculateOverallScore (calculateVariantMetrics (samplePerformance 100 40)) ''open_rate''
       = 16"
    by (rule scoreA)
next
  show "calculateOverallScore (calculateVariantMetrics (samplePerformance 80 48)) ''open_rate''
       = 24"
    by (rule scoreB)
next
  show "calculateOverallScore (calculateVariantMetrics (samplePerformance 100 40)) ''open_rate''
       < calculateOverallScore (calculateVariantMetrics (samplePerformance 80 48)) ''open_rate''"
    by (simp add: scoreA scoreB)
qed

text \<open>A variant that has sent nothing, with 5 opens on record, scores 0.\<close>

theorem calculateOverallScore_open_rate_witness:
  "calculateOverallScore (calculateVariantMetrics (samplePerformance 0 5)) ''open_rate'' = 0"
  using calculateOverallScore_open_rate [of "samplePerformance 0 5"]
  by (simp add: samplePerformance_def)

text \<open>
  Claim C9 as stated fails.  With 3 sent and 1 opened the claim's formula gives
  \<open>0.4 * 100/3 = 40/3\<close>.  The code gives the double \<open>13.33\<close>: the rate is rounded to
  \<open>33.33\<close> and the score to two decimals again.
\<close>

theorem calculateOverallScore_counterexample:
  "calculateOverallScore (calculateVariantMetrics (samplePerformance 3 1)) ''open_rate''
     = fl (1333 / 100)
   \<and> fl (1333 / 100) = 7504122879106089 / 2 ^ 49
   \<and> max 0 ((4 / 10) * (1 / 3 * 100) + (3 / 10) * 0 + (3 / 10) * 0
            - (5 / 10) * 0 - (3 / 10) * 0) = (40 / 3 :: rat)
   \<and> fl (1333 / 100) \<noteq> 40 / 3"
proof -
  have v: "fl (1333 / 100) = 7504122879106089 / 2 ^ 49"
    using fl_near [of "1333 / 100" 49 7504122879106089] by simp
  have "calculateOverallScore (calculateVariantMetrics (samplePerformance 3 1)) ''open_rate''
     = fl (1333 / 100)"
    by (rule scoreC)
  moreover have "fl (1333 / 100) \<noteq> 40 / 3"
    by (simp add: v)
  ultimately show ?thesis using v by simp
qed

text \<open>
  Two roundings that fall below a tie.  With 160 sent and 23 opened the quotient is
  14.375 and the rate in doubles is 14.37.  With 3 sent, 3 opened and 2 unsubscribed the
  rates are 100 and 66.67, and the score in doubles is 6.66, where \<open>40 - 33.335\<close> would
  round to 6.67.
\<close>

lemma rate_tie: "percentRate 23 160 = fl (1437 / 100)"
proof -
  define x1 :: rat where "x1 = 2589569785738035 / 2 ^ 54"
  have f1: "js_div 23 160 = x1"
    unfolding js_div_def
    using fl_near [of "23 / 160" 55 5179139571476070] unfolding x1_def by simp
  define x2 :: rat where "x2 = 8092405580431359 / 2 ^ 49"
  have f2: "js_mul x1 100 = x2"
    unfolding js_mul_def
    using fl_near [of "x1 * 100" 49 8092405580431359] unfolding x1_def x2_def by simp
  define x3 :: rat where "x3 = 6322191859711999 / 2 ^ 42"
  have f3: "js_mul x2 100 = x3"
    unfolding js_mul_def
    using fl_near [of "x2 * 100" 42 6322191859711999] unfolding x1_def x2_def x3_def by simp
  have f4: "Math_round x3 = 1437"
    unfolding x1_def x2_def x3_def by (simp add: Math_round_def floor_eq_iff)
  define x4 :: rat where "x4 = 8089590830664253 / 2 ^ 49"
  have f5: "js_div 1437 100 = x4"
    unfolding js_div_def
    using fl_near [of "1437 / 100" 49 8089590830664253]
      unfolding x1_def x2_def x3_def x4_def by simp
  have f6: "fl (1437 / 100) = x4"
    using fl_near [of "1437 / 100" 49 8089590830664253]
      unfolding x1_def x2_def x3_def x4_def by simp
  show ?thesis
    by (simp add: percentRate_def twoDecimals_def f1 f2 f3 f4 f5 f6)
qed

lemma rate_full: "percentRate 3 3 = 100"
proof -
  have f1: "js_div 3 3 = 1"
    unfolding js_div_def
    using fl_near [of "3 / 3" 52 4503599627370496] by simp
  have f2: "js_mul 1 100 = 100"
    unfolding js_mul_def
    using fl_near [of "1 * 100" 46 7036874417766400] by simp
  have f3: "js_mul 100 100 = 10000"
    unfolding js_mul_def
    using fl_near [of "100 * 100" 39 5497558138880000] by simp
  have f4: "Math_round 10000 = 10000"
    by (simp add: Math_round_def floor_eq_iff)
  have f5: "js_div 10000 100 = 100"
    unfolding js_div_def
    using fl_near [of "10000 / 100" 46 7036874417766400] by simp
  show ?thesis
    by (simp add: percentRate_def twoDecimals_def f1 f2 f3 f4 f5)
qed

lemma rate_two_thirds: "percentRate 2 3 = fl (6667 / 100)"
proof -
  define x1 :: rat where "x1 = 6004799503160661 / 2 ^ 53"
  have f1: "js_div 2 3 = x1"
    unfolding js_div_def
    using fl_near [of "2 / 3" 53 6004799503160661] unfolding x1_def by simp
  define x2 :: rat where "x2 = 2345624805922133 / 2 ^ 45"
  have f2: "js_mul x1 100 = x2"
    unfolding js_mul_def
    using fl_near [of "x1 * 100" 46 4691249611844266] unfolding x1_def x2_def by simp
  define x3 :: rat where "x3 = 3665038759253333 / 2 ^ 39"
  have f3: "js_mul x2 100 = x3"
    unfolding js_mul_def
    using fl_near [of "x2 * 100" 40 7330077518506666] unfolding x1_def x2_def x3_def by simp
  have f4: "Math_round x3 = 6667"
    unfolding x1_def x2_def x3_def by (simp add: Math_round_def floor_eq_iff)
  define x4 :: rat where "x4 = 4691484174324859 / 2 ^ 46"
  have f5: "js_div 6667 100 = x4"
    unfolding js_div_def
    using fl_near [of "6667 / 100" 46 4691484174324859]
      unfolding x1_def x2_def x3_def x4_def by simp
  have f6: "fl (6667 / 100) = x4"
    using fl_near [of "6667 / 100" 46 4691484174324859]
      unfolding x1_def x2_def x3_def x4_def by simp
  show ?thesis
    by (simp add: percentRate_def twoDecimals_def f1 f2 f3 f4 f5 f6)
qed

lemma score_tie:
  "calculateOverallScore (calculateVariantMetrics ((samplePerformance 3 3)\<lparr>unsubscribed := 2\<rparr>))
     ''open_rate'' = fl (666 / 100)"
proof -
  define y1 :: rat where "y1 = 4691484174324859 / 2 ^ 46"
  have f1: "fl (6667 / 100) = y1"
    using fl_near [of "6667 / 100" 46 4691484174324859] unfolding y1_def by simp
  define y2 :: rat where "y2 = 3602879701896397 / 2 ^ 53"
  have f2: "fl (2 / 5) = y2"
    using fl_near [of "2 / 5" 54 7205759403792794] unfolding y1_def y2_def by simp
  define y3 :: rat where "y3 = 5404319552844595 / 2 ^ 54"
  have f3: "fl (3 / 10) = y3"
    using fl_near [of "3 / 10" 54 5404319552844595] unfolding y1_def y2_def y3_def by simp
  have f4: "fl (1 / 2) = 1 / 2"
    using fl_near [of "1 / 2" 53 4503599627370496] by simp
  have f5: "js_mul 100 y2 = 40"
    unfolding js_mul_def
    using fl_near [of "100 * y2" 47 5629499534213120] unfolding y1_def y2_def y3_def by simp
  have f6: "js_mul 0 y3 = 0"
    by (simp add: js_mul_def fl_zero)
  have f7: "js_add 40 0 = 40"
    unfolding js_add_def
    using fl_near [of "40 + 0" 47 5629499534213120] unfolding y1_def y2_def y3_def by simp
  define y4 :: rat where "y4 = 4691484174324859 / 2 ^ 47"
  have f8: "js_mul y1 (1 / 2) = y4"
    unfolding js_mul_def
    using fl_near [of "y1 * (1 / 2)" 47 4691484174324859]
      unfolding y1_def y2_def y3_def y4_def by simp
  define y5 :: rat where "y5 = 938015359888261 / 2 ^ 47"
  have f9: "js_sub 40 y4 = y5"
    unfolding js_sub_def
    using fl_near [of "40 - y4" 50 7504122879106088]
      unfolding y1_def y2_def y3_def y4_def y5_def by simp
  have f10: "js_sub y5 0 = y5"
    unfolding js_sub_def
    using fl_near [of "y5 - 0" 50 7504122879106088]
      unfolding y1_def y2_def y3_def y4_def y5_def by simp
  define y6 :: rat where "y6 = 5862595999301631 / 2 ^ 43"
  have f11: "js_mul y5 100 = y6"
    unfolding js_mul_def
    using fl_near [of "y5 * 100" 43 5862595999301631]
      unfolding y1_def y2_def y3_def y4_def y5_def y6_def by simp
  have f12: "Math_round y6 = 666"
    unfolding y1_def y2_def y3_def y4_def y5_def y6_def by (simp add: Math_round_def floor_eq_iff)
  define y7 :: rat where "y7 = 1874623344892969 / 2 ^ 48"
  have f13: "js_div 666 100 = y7"
    unfolding js_div_def
    using fl_near [of "666 / 100" 50 7498493379571876]
      unfolding y1_def y2_def y3_def y4_def y5_def y6_def y7_def by simp
  have f14: "fl (333 / 50) = y7"
    using fl_near [of "333 / 50" 50 7498493379571876]
      unfolding y1_def y2_def y3_def y4_def y5_def y6_def y7_def by simp
  have pos: "0 \<le> y7" unfolding y7_def by simp
  show ?thesis
    by (simp add: score_open_rate metrics_rates samplePerformance_def rate_full rate_two_thirds
                  rate0 twoDecimals_def
                  f1 f2 f3 f4 f5 f6 f7 f8 f9 f10 f11 f12 f13 f14 max_absorb2 [OF pos])
qed

text \<open>
  The ranking.  \<open>analyzeAbTestResults\<close> sorts by \<open>metrics.overallScore\<close>, which is 0 in
  every result, since the score it computes is never stored.  The sort therefore changes
  nothing and the first variant that has sent anything is flagged as winner: in the
  scenario of the spec, A and not B.
\<close>

lemma collectResults_score:
  "r \<in> set (collectResults ab vs) \<Longrightarrow> overallScore (metrics r) = 0"
proof (induction vs)
  case Nil
  then show ?case by simp
next
  case (Cons v vs)
  then show ?case
    by (auto simp: Let_def metrics_rates(6) split: option.splits if_splits)
qed

lemma collectResults_unsorted:
  "sort_key (\<lambda>r. - overallScore (metrics r)) (collectResults ab vs) = collectResults ab vs"
proof (rule sort_key_id_if_sorted)
  have "map (\<lambda>r. - overallScore (metrics r)) (collectResults ab vs)
          = replicate (length (collectResults ab vs)) 0"
    by (rule nth_equalityI) (simp_all add: collectResults_score [OF nth_mem])
  then show "sorted (map (\<lambda>r. - overallScore (metrics r)) (collectResults ab vs))"
    by simp
qed

lemma analyzeAbTestResults_first_wins:
  assumes "repo cid = Some c" and "Campaign.abTesting c = Some ab" and "enabled ab"
  shows "analyzeAbTestResults repo cid =
           Inr (case collectResults ab (AbTesting.variants ab) of
                  [] \<Rightarrow> []
                | r # rs \<Rightarrow> r\<lparr>isWinner := True\<rparr> # rs)"
  using assms
  by (simp add: analyzeAbTestResults_def collectResults_unsorted split: list.splits)

lemma analyzeAbTestResults_scenario:
  "map_sum id (map (\<lambda>r. (variantName r, isWinner r)))
     (analyzeAbTestResults (sampleExperiment True None 60) ''c1'')
     = Inr [(''A'', True), (''B'', False)]"
proof -
  have r: "sampleExperiment True None 60 ''c1''
             = Some ((sampleCampaign CampaignStatus.DRAFT None)
                       \<lparr>abTesting := Some (sampleAbTesting True None 60)\<rparr>)"
    by (simp add: sampleExperiment_def)
  have ab: "Campaign.abTesting ((sampleCampaign CampaignStatus.DRAFT None)
                       \<lparr>abTesting := Some (sampleAbTesting True None 60)\<rparr>)
             = Some (sampleAbTesting True None 60)"
    by simp
  have en: "enabled (sampleAbTesting True None 60)"
    by (simp add: sampleAbTesting_def)
  have "analyzeAbTestResults (sampleExperiment True None 60) ''c1'' =
           Inr (case collectResults (sampleAbTesting True None 60)
                       (AbTesting.variants (sampleAbTesting True None 60)) of
                  [] \<Rightarrow> []
                | r # rs \<Rightarrow> r\<lparr>isWinner := True\<rparr> # rs)"
    by (rule analyzeAbTestResults_first_wins
          [where repo = "sampleExperiment True None 60" and cid = "''c1''"
             and c = "(sampleCampaign CampaignStatus.DRAFT None)
                        \<lparr>abTesting := Some (sampleAbTesting True None 60)\<rparr>"
             and ab = "sampleAbTesting True None 60", OF r ab en])
  then show ?thesis
    by (simp add: sampleAbTesting_def sampleVariant_def samplePerformance_def Let_def)
qed

section \<open>Properties of trackVariantPerformance\<close>

lemma findVariant_none:
  "findVariant vs vid = None \<longleftrightarrow> (\<forall>v \<in> set vs. AbTestVariant.variantId v \<noteq> vid)"
  by (auto simp: findVariant_def find_None_iff)

lemma findVariant_first:
  "i < length vs \<Longrightarrow> AbTestVariant.variantId (vs ! i) = vid \<Longrightarrow>
   (\<forall>j<i. AbTestVariant.variantId (vs ! j) \<noteq> vid) \<Longrightarrow>
   findVariant vs vid = Some (vs ! i)"
proof (induction vs arbitrary: i)
  case Nil
  then show ?case by simp
next
  case (Cons v vs)
  show ?case
  proof (cases i)
    case 0
    with Cons.prems show ?thesis by (simp add: findVariant_def)
  next
    case (Suc k)
    from Cons.prems(3) Suc have v: "AbTestVariant.variantId v \<noteq> vid" by auto
    have a: "k < length vs" using Cons.prems(1) Suc by simp
    have b: "AbTestVariant.variantId (vs ! k) = vid" using Cons.prems(2) Suc by simp
    have c: "\<forall>j<k. AbTestVariant.variantId (vs ! j) \<noteq> vid"
    proof (intro allI impI)
      fix j assume "j < k"
      then have "Suc j < i" using Suc by simp
      with Cons.prems(3) have "AbTestVariant.variantId ((v # vs) ! Suc j) \<noteq> vid" by blast
      then show "AbTestVariant.variantId (vs ! j) \<noteq> vid" by simp
    qed
    from Cons.IH [OF a b c] v Suc show ?thesis by (simp add: findVariant_def)
  qed
qed

lemma updateFound_first:
  "i < length vs \<Longrightarrow> AbTestVariant.variantId (vs ! i) = vid \<Longrightarrow>
   (\<forall>j<i. AbTestVariant.variantId (vs ! j) \<noteq> vid) \<Longrightarrow>
   updateFound f vs vid = vs[i := f (vs ! i)]"
proof (induction vs arbitrary: i)
  case Nil
  then show ?case by simp
next
  case (Cons v vs)
  show ?case
  proof (cases i)
    case 0
    with Cons.prems show ?thesis by simp
  next
    case (Suc k)
    from Cons.prems(3) Suc have v: "AbTestVariant.variantId v \<noteq> vid" by auto
    have a: "k < length vs" using Cons.prems(1) Suc by simp
    have b: "AbTestVariant.variantId (vs ! k) = vid" using Cons.prems(2) Suc by simp
    have c: "\<forall>j<k. AbTestVariant.variantId (vs ! j) \<noteq> vid"
    proof (intro allI impI)
      fix j assume "j < k"
      then have "Suc j < i" using Suc by simp
      with Cons.prems(3) have "AbTestVariant.variantId ((v # vs) ! Suc j) \<noteq> vid" by blast
      then show "AbTestVariant.variantId (vs ! j) \<noteq> vid" by simp
    qed
    from Cons.IH [OF a b c] v Suc show ?thesis by simp
  qed
qed

lemma countEvent_one:
  "countEvent event p =
     \<lparr>sent = sent p + (if event = Event_sent then 1 else 0),
      opened = opened p + (if event = Event_opened then 1 else 0),
      clicked = clicked p + (if event = Event_clicked then 1 else 0),
      replied = replied p + (if event = Event_replied then 1 else 0),
      unsubscribed = unsubscribed p + (if event = Event_unsubscribed then 1 else 0),
      bounced = bounced p + (if event = Event_bounced then 1 else 0)\<rparr>"
  by (cases event) simp_all

lemma track_untouched:
  assumes "repo cid = None
     \<or> (\<exists>c. repo cid = Some c
          \<and> (Campaign.abTesting c = None
              \<or> (\<exists>ab. Campaign.abTesting c = Some ab
                    \<and> (\<not> enabled ab
                        \<or> (\<forall>v \<in> set (AbTesting.variants ab).
                              AbTestVariant.variantId v \<noteq> vid)))))"
  shows "trackVariantPerformance repo cid vid emailId event = repo"
  using assms
  by (auto simp: trackVariantPerformance_def findVariant_none [symmetric]
           split: option.splits)

lemma track_found:
  assumes "repo cid = Some c" and "Campaign.abTesting c = Some ab" and "enabled ab"
    and "i < length (AbTesting.variants ab)"
    and "AbTestVariant.variantId (AbTesting.variants ab ! i) = vid"
    and "\<forall>j<i. AbTestVariant.variantId (AbTesting.variants ab ! j) \<noteq> vid"
  shows "trackVariantPerformance repo cid vid emailId event =
     repo(cid \<mapsto> c\<lparr>Campaign.abTesting := Some
       (ab\<lparr>AbTesting.variants := (AbTesting.variants ab)
             [i := (AbTesting.variants ab ! i)\<lparr>performance := Some
                (countEvent event
                   (case performance (AbTesting.variants ab ! i) of
                      None \<Rightarrow> zeroPerformance
                    | Some p \<Rightarrow> p))\<rparr>]\<rparr>)\<rparr>)"
proof -
  have f: "findVariant (AbTesting.variants ab) vid = Some (AbTesting.variants ab ! i)"
    using assms(4,5,6) by (rule findVariant_first)
  have u: "updateFound g (AbTesting.variants ab) vid
             = (AbTesting.variants ab)[i := g (AbTesting.variants ab ! i)]" for g
    using assms(4,5,6) by (rule updateFound_first)
  show ?thesis
    using assms(1,2,3) by (simp add: trackVariantPerformance_def f u Let_def)
qed

text \<open>
  Claim C10.  \<open>trackVariantPerformance\<close> has no failing path.  When the campaign is not
  stored, has no experiment, has an experiment that is not enabled, or has no variant with
  the given id, the call leaves the table as it was.  When the experiment is enabled and
  position \<open>i\<close> holds the first variant with the given id, the call stores the campaign
  with exactly that variant's performance replaced: the old counters (all 0 when there were
  none) with 1 added to the counter the event names and nothing added to the other five.
  Every other variant, every other field of the experiment and of the campaign, and every
  other campaign are unchanged.
\<close>

theorem trackVariantPerformance_frame:
  "(repo cid = None
     \<or> (\<exists>c. repo cid = Some c
          \<and> (Campaign.abTesting c = None
              \<or> (\<exists>ab. Campaign.abTesting c = Some ab
                    \<and> (\<not> enabled ab
                        \<or> (\<forall>v \<in> set (AbTesting.variants ab).
                              AbTestVariant.variantId v \<noteq> vid))))) \<longrightarrow>
      trackVariantPerformance repo cid vid emailId event = repo)
   \<and> (repo cid = Some c \<and> Campaign.abTesting c = Some ab \<and> enabled ab
       \<and> i < length (AbTesting.variants ab)
       \<and> AbTestVariant.variantId (AbTesting.variants ab ! i) = vid
       \<and> (\<forall>j<i. AbTestVariant.variantId (AbTesting.variants ab ! j) \<noteq> vid) \<longrightarrow>
      trackVariantPerformance repo cid vid emailId event =
        repo(cid \<mapsto> c\<lparr>Campaign.abTesting := Some
          (ab\<lparr>AbTesting.variants := (AbTesting.variants ab)
                [i := (AbTesting.variants ab ! i)\<lparr>performance := Some
                   (countEvent event
                      (case performance (AbTesting.variants ab ! i) of
                         None \<Rightarrow> zeroPerformance
                       | Some p \<Rightarrow> p))\<rparr>]\<rparr>)\<rparr>))
   \<and> countEvent event q =
        \<lparr>sent = sent q + (if event = Event_sent then 1 else 0),
         opened = opened q + (if event = Event_opened then 1 else 0),
         clicked = clicked q + (if event = Event_clicked then 1 else 0),
         replied = replied q + (if event = Event_replied then 1 else 0),
         unsubscribed = unsubscribed q + (if event = Event_unsubscribed then 1 else 0),
         bounced = bounced q + (if event = Event_bounced then 1 else 0)\<rparr>"
proof (intro conjI impI)
  assume "repo cid = None
     \<or> (\<exists>c. repo cid = Some c
          \<and> (Campaign.abTesting c = None
              \<or> (\<exists>ab. Campaign.abTesting c = Some ab
                    \<and> (\<not> enabled ab
                        \<or> (\<forall>v \<in> set (AbTesting.variants ab).
                              AbTestVariant.variantId v \<noteq> vid)))))"
  then show "trackVariantPerformance repo cid vid emailId event = repo"
    by (rule track_untouched)
next
  assume h: "repo cid = Some c \<and> Campaign.abTesting c = Some ab \<and> enabled ab
       \<and> i < length (AbTesting.variants ab)
       \<and> AbTestVariant.variantId (AbTesting.variants ab ! i) = vid
       \<and> (\<forall>j<i. AbTestVariant.variantId (AbTesting.variants ab ! j) \<noteq> vid)"
  show "trackVariantPerformance repo cid vid emailId event =
        repo(cid \<mapsto> c\<lparr>Campaign.abTesting := Some
          (ab\<lparr>AbTesting.variants := (AbTesting.variants ab)
                [i := (AbTesting.variants ab ! i)\<lparr>performance := Some
                   (countEvent event
                      (case performance (AbTesting.variants ab ! i) of
                         None \<Rightarrow> zeroPerformance
                       | Some p \<Rightarrow> p))\<rparr>]\<rparr>)\<rparr>)"
    using h by (intro track_found) simp_all
next
  show "countEvent event q =
        \<lparr>sent = sent q + (if event = Event_sent then 1 else 0),
         opened = opened q + (if event = Event_opened then 1 else 0),
         clicked = clicked q + (if event = Event_clicked then 1 else 0),
         replied = replied q + (if event = Event_replied then 1 else 0),
         unsubscribed = unsubscribed q + (if event = Event_unsubscribed then 1 else 0),
         bounced = bounced q + (if event = Event_bounced then 1 else 0)\<rparr>"
    by (rule countEvent_one)
qed

text \<open>
  An \<open>opened\<close> event for \<open>variant-2\<close> of the enabled experiment raises that variant's
  \<open>opened\<close> from 48 to 49 and nothing else; an event for an unknown variant, and one for
  an experiment that is not enabled, change nothing.
\<close>

theorem trackVariantPerformance_frame_witness:
  "trackVariantPerformance (sampleExperiment True None 60) ''c1'' ''variant-2'' ''e1''
     Event_opened
     = [''c1'' \<mapsto> (sampleCampaign CampaignStatus.DRAFT None)
          \<lparr>abTesting := Some ((sampleAbTesting True None 60)
             \<lparr>AbTesting.variants :=
                [sampleVariant ''variant-1'' ''A'' 60 100 40,
                 sampleVariant ''variant-2'' ''B'' 40 80 49]\<rparr>)\<rparr>]
   \<and> trackVariantPerformance (sampleExperiment True None 60) ''c1'' ''variant-9'' ''e1''
       Event_opened
     = sampleExperiment True None 60
   \<and> trackVariantPerformance (sampleExperiment False None 60) ''c1'' ''variant-2'' ''e1''
       Event_opened
     = sampleExperiment False None 60"
proof -
  have r: "sampleExperiment en win wA ''c1''
             = Some ((sampleCampaign CampaignStatus.DRAFT None)
                       \<lparr>abTesting := Some (sampleAbTesting en win wA)\<rparr>)" for en win wA
    by (simp add: sampleExperiment_def)
  have ab: "Campaign.abTesting ((sampleCampaign CampaignStatus.DRAFT None)
                       \<lparr>abTesting := Some (sampleAbTesting en win wA)\<rparr>)
             = Some (sampleAbTesting en win wA)" for en win wA
    by simp
  have vs: "AbTesting.variants (sampleAbTesting en win wA) =
              [sampleVariant ''variant-1'' ''A'' wA 100 40,
               sampleVariant ''variant-2'' ''B'' 40 80 48]"
           "enabled (sampleAbTesting en win wA) = en" for en win wA
    by (simp_all add: sampleAbTesting_def)
  have ids: "AbTestVariant.variantId (sampleVariant v nm w s n) = v" for v nm w s n
    by (simp add: sampleVariant_def)
  note a = trackVariantPerformance_frame
    [where repo = "sampleExperiment True None 60" and cid = "''c1''"
       and c = "(sampleCampaign CampaignStatus.DRAFT None)
                  \<lparr>abTesting := Some (sampleAbTesting True None 60)\<rparr>"
       and ab = "sampleAbTesting True None 60" and vid = "''variant-2''" and i = 1
       and emailId = "''e1''" and event = Event_opened
       and q = "samplePerformance 80 48"]
  note b = trackVariantPerformance_frame
    [where repo = "sampleExperiment True None 60" and cid = "''c1''"
       and vid = "''variant-9''" and emailId = "''e1''" and event = Event_opened]
  note c = trackVariantPerformance_frame
    [where repo = "sampleExperiment False None 60" and cid = "''c1''"
       and vid = "''variant-2''" and emailId = "''e1''" and event = Event_opened]
  have w1: "trackVariantPerformance (sampleExperiment True None 60) ''c1'' ''variant-2'' ''e1''
     Event_opened
     = (sampleExperiment True None 60)
        (''c1'' \<mapsto> (sampleCampaign CampaignStatus.DRAFT None)
          \<lparr>abTesting := Some ((sampleAbTesting True None 60)
             \<lparr>AbTesting.variants :=
                [sampleVariant ''variant-1'' ''A'' 60 100 40,
                 sampleVariant ''variant-2'' ''B'' 40 80 49]\<rparr>)\<rparr>)"
    using a by (simp add: r ab vs ids) (simp add: sampleVariant_def samplePerformance_def)
  have w2: "trackVariantPerformance (sampleExperiment True None 60) ''c1'' ''variant-9'' ''e1''
       Event_opened = sampleExperiment True None 60"
    using b by (simp add: r ab vs ids)
  have w3: "trackVariantPerformance (sampleExperiment False None 60) ''c1'' ''variant-2'' ''e1''
       Event_opened = sampleExperiment False None 60"
    using c by (simp add: r ab vs ids)
  from w1 w2 w3 show ?thesis by (simp add: sampleExperiment_def)
qed


end
